theory Spec2Isabelle
  imports Main "HOL-Library.AList"
begin

section \<open>The authentication controller (src/controllers/auth.py)\<close>

text \<open>
  A shallow embedding of \<^verbatim>\<open>AuthController\<close>, of the \<^verbatim>\<open>User\<close> and \<^verbatim>\<open>Session\<close>
  classes it works on and of the part of \<^verbatim>\<open>AuthValidator\<close> it calls.

  Conventions of the embedding.
  \<^item> A Python \<^verbatim>\<open>str\<close> is a \<open>string\<close>; a character is read as a code point below 256.
  \<^item> A \<^verbatim>\<open>datetime\<close> is an integer number of microseconds, a \<^verbatim>\<open>timedelta\<close>
    the difference of two. Arithmetic on them is exact on unbounded integers (the
    \<^verbatim>\<open>OverflowError\<close> of Python beyond the year 9999 is outside the model). An
    operation reads the clock once: it takes the reading as its argument \<open>now\<close>, and
    the several \<^verbatim>\<open>datetime.now()\<close> calls of one operation all see that reading.
  \<^item> \<^verbatim>\<open>User\<close> and \<^verbatim>\<open>Session\<close> objects are mutable and shared: the dictionaries of the
    controller and its \<^verbatim>\<open>current_user\<close> / \<^verbatim>\<open>current_session\<close> attributes hold references
    to the same objects. The objects live in two stores (lists, an address is an index);
    dictionaries and attributes hold addresses. A dictionary is an association list in
    insertion order, as Python iterates it.
  \<^item> Values drawn from \<^verbatim>\<open>secrets\<close> (session ids, salts, the random part of a user id)
    are arguments of the operation that draws them.
  \<^item> \<^verbatim>\<open>hashlib.pbkdf2_hmac\<close> is a parameter \<open>H\<close> (password, salt to hex digest).
  \<^item> Qt signals and \<^verbatim>\<open>loguru\<close> log lines are appended, in the order the code emits
    them, to a trace kept in the controller state. An f-string is kept as the list of
    its literal pieces and interpolated values.
  \<^item> With arguments of the annotated types no statement inside the \<^verbatim>\<open>try\<close> blocks
    raises, so the \<^verbatim>\<open>except Exception\<close> handlers have no branch in the model.
\<close>

subsection \<open>Enumerations\<close>

datatype UserRole = ADMIN | PHARMACIST | NUTRITIONIST | ASSISTANT | VIEWER

fun role_value :: "UserRole \<Rightarrow> string" where
  "role_value ADMIN = ''admin''"
| "role_value PHARMACIST = ''pharmacist''"
| "role_value NUTRITIONIST = ''nutritionist''"
| "role_value ASSISTANT = ''assistant''"
| "role_value VIEWER = ''viewer''"

text \<open>\<^verbatim>\<open>UserRole(value)\<close>: the member with that value (\<^verbatim>\<open>ValueError\<close> otherwise).\<close>

definition UserRole_of :: "string \<Rightarrow> UserRole option" where
  "UserRole_of v =
     (if v = ''admin'' then Some ADMIN
      else if v = ''pharmacist'' then Some PHARMACIST
      else if v = ''nutritionist'' then Some NUTRITIONIST
      else if v = ''assistant'' then Some ASSISTANT
      else if v = ''viewer'' then Some VIEWER
      else None)"

datatype Permission =
    CLIENT_CREATE | CLIENT_READ | CLIENT_UPDATE | CLIENT_DELETE
  | DIET_CREATE | DIET_READ | DIET_UPDATE | DIET_DELETE
  | REPORT_GENERATE | REPORT_VIEW | REPORT_DELETE
  | USER_MANAGE | SETTINGS_MANAGE | BACKUP_RESTORE | AUDIT_VIEW

fun permission_value :: "Permission \<Rightarrow> string" where
  "permission_value CLIENT_CREATE = ''client:create''"
| "permission_value CLIENT_READ = ''client:read''"
| "permission_value CLIENT_UPDATE = ''client:update''"
| "permission_value CLIENT_DELETE = ''client:delete''"
| "permission_value DIET_CREATE = ''diet:create''"
| "permission_value DIET_READ = ''diet:read''"
| "permission_value DIET_UPDATE = ''diet:update''"
| "permission_value DIET_DELETE = ''diet:delete''"
| "permission_value REPORT_GENERATE = ''report:generate''"
| "permission_value REPORT_VIEW = ''report:view''"
| "permission_value REPORT_DELETE = ''report:delete''"
| "permission_value USER_MANAGE = ''user:manage''"
| "permission_value SETTINGS_MANAGE = ''settings:manage''"
| "permission_value BACKUP_RESTORE = ''backup:restore''"
| "permission_value AUDIT_VIEW = ''audit:view''"

datatype SessionStatus = ACTIVE | EXPIRED | TERMINATED | LOCKED

fun status_value :: "SessionStatus \<Rightarrow> string" where
  "status_value ACTIVE = ''active''"
| "status_value EXPIRED = ''expired''"
| "status_value TERMINATED = ''terminated''"
| "status_value LOCKED = ''locked''"

subsection \<open>Time\<close>

type_synonym datetime = int

definition timedelta_hours :: "int \<Rightarrow> int" where
  "timedelta_hours h = h * 3600000000"

definition timedelta_minutes :: "int \<Rightarrow> int" where
  "timedelta_minutes m = m * 60000000"

subsection \<open>Class User\<close>

record User =
  u_id :: string
  u_username :: string
  u_email :: string
  u_role :: UserRole
  u_password_hash :: string
  u_salt :: string
  u_is_active :: bool
  u_created_at :: datetime
  u_last_login :: "datetime option"
  u_failed_login_attempts :: int
  u_locked_until :: "datetime option"

text \<open>\<^verbatim>\<open>User.is_locked\<close>: a comparison with the clock; the object is not written.\<close>

definition is_locked :: "datetime \<Rightarrow> User \<Rightarrow> bool" where
  "is_locked now u = (case u_locked_until u of None \<Rightarrow> False | Some t \<Rightarrow> now < t)"

text \<open>The dictionary \<^verbatim>\<open>role_permissions\<close> of \<^verbatim>\<open>User.get_permissions\<close>.\<close>

fun role_permissions :: "UserRole \<Rightarrow> Permission list" where
  "role_permissions ADMIN =
     [CLIENT_CREATE, CLIENT_READ, CLIENT_UPDATE, CLIENT_DELETE,
      DIET_CREATE, DIET_READ, DIET_UPDATE, DIET_DELETE,
      REPORT_GENERATE, REPORT_VIEW, REPORT_DELETE,
      USER_MANAGE, SETTINGS_MANAGE, BACKUP_RESTORE, AUDIT_VIEW]"
| "role_permissions PHARMACIST =
     [CLIENT_CREATE, CLIENT_READ, CLIENT_UPDATE,
      DIET_CREATE, DIET_READ, DIET_UPDATE,
      REPORT_GENERATE, REPORT_VIEW]"
| "role_permissions NUTRITIONIST =
     [CLIENT_CREATE, CLIENT_READ, CLIENT_UPDATE,
      DIET_CREATE, DIET_READ, DIET_UPDATE,
      REPORT_GENERATE, REPORT_VIEW]"
| "role_permissions ASSISTANT =
     [CLIENT_CREATE, CLIENT_READ, CLIENT_UPDATE,
      DIET_READ, REPORT_VIEW]"
| "role_permissions VIEWER =
     [CLIENT_READ, DIET_READ, REPORT_VIEW]"

definition get_permissions :: "User \<Rightarrow> Permission list" where
  "get_permissions u = role_permissions (u_role u)"

text \<open>\<^verbatim>\<open>User.has_permission\<close>.\<close>

definition user_has_permission :: "User \<Rightarrow> Permission \<Rightarrow> bool" where
  "user_has_permission u p = (p \<in> set (get_permissions u))"

text \<open>\<^verbatim>\<open>User.to_dict()\<close> (without the sensitive fields, as every caller asks for it).\<close>

record user_dict =
  ud_id :: string
  ud_username :: string
  ud_email :: string
  ud_role :: string
  ud_is_active :: bool
  ud_created_at :: datetime
  ud_last_login :: "datetime option"
  ud_failed_login_attempts :: int
  ud_is_locked :: bool

definition to_dict :: "datetime \<Rightarrow> User \<Rightarrow> user_dict" where
  "to_dict now u =
     \<lparr>ud_id = u_id u, ud_username = u_username u, ud_email = u_email u,
      ud_role = role_value (u_role u), ud_is_active = u_is_active u,
      ud_created_at = u_created_at u, ud_last_login = u_last_login u,
      ud_failed_login_attempts = u_failed_login_attempts u,
      ud_is_locked = is_locked now u\<rparr>"

subsection \<open>Class Session\<close>

record Session =
  s_session_id :: string
  s_user_id :: string
  s_username :: string
  s_role :: UserRole
  s_created_at :: datetime
  s_expires_at :: datetime
  s_last_activity :: datetime
  s_ip_address :: "string option"
  s_user_agent :: "string option"
  s_status :: SessionStatus

text \<open>The constructor, as \<^verbatim>\<open>_create_session\<close> calls it (\<^verbatim>\<open>expires_at\<close> given,
  the other optional arguments left out).\<close>

definition new_Session :: "datetime \<Rightarrow> string \<Rightarrow> string \<Rightarrow> string \<Rightarrow> UserRole \<Rightarrow> datetime \<Rightarrow> Session" where
  "new_Session now session_id user_id username role expires_at =
     \<lparr>s_session_id = session_id, s_user_id = user_id, s_username = username,
      s_role = role, s_created_at = now, s_expires_at = expires_at,
      s_last_activity = now, s_ip_address = None, s_user_agent = None,
      s_status = ACTIVE\<rparr>"

definition is_valid :: "datetime \<Rightarrow> Session \<Rightarrow> bool" where
  "is_valid now se = (s_status se = ACTIVE \<and> now < s_expires_at se)"

definition extend_session :: "datetime \<Rightarrow> int \<Rightarrow> Session \<Rightarrow> Session" where
  "extend_session now hours se =
     se\<lparr>s_expires_at := now + timedelta_hours hours, s_last_activity := now\<rparr>"

record session_dict =
  sd_session_id :: string
  sd_user_id :: string
  sd_username :: string
  sd_role :: string
  sd_created_at :: datetime
  sd_expires_at :: datetime
  sd_last_activity :: datetime
  sd_ip_address :: "string option"
  sd_user_agent :: "string option"
  sd_status :: string
  sd_is_valid :: bool

definition session_to_dict :: "datetime \<Rightarrow> Session \<Rightarrow> session_dict" where
  "session_to_dict now se =
     \<lparr>sd_session_id = s_session_id se, sd_user_id = s_user_id se,
      sd_username = s_username se, sd_role = role_value (s_role se),
      sd_created_at = s_created_at se, sd_expires_at = s_expires_at se,
      sd_last_activity = s_last_activity se, sd_ip_address = s_ip_address se,
      sd_user_agent = s_user_agent se, sd_status = status_value (s_status se),
      sd_is_valid = is_valid now se\<rparr>"

subsection \<open>Message texts\<close>

text \<open>The five suggestions of \<^verbatim>\<open>validate_password\<close> are Arabic sentences; each is
  kept as a constant (\<open>NeedMinLength n\<close> carries the interpolated length).\<close>

datatype suggestion =
  PasswordRequired | NeedMinLength int | NeedUppercase | NeedLowercase | NeedDigit | NeedSpecial

text \<open>A piece of an f-string: literal text (or an interpolated string), an interpolated
  integer, an interpolated optional datetime, one of the Arabic sentences.\<close>

datatype fpart = Lit string | IntArg int | TimeArg "datetime option" | Arabic suggestion

type_synonym fstring = "fpart list"

text \<open>\<^verbatim>\<open>sep.join(xs)\<close>.\<close>

fun join :: "fstring \<Rightarrow> fstring list \<Rightarrow> fstring" where
  "join sep [] = []"
| "join sep [x] = x"
| "join sep (x # y # ys) = x @ sep @ join sep (y # ys)"

text \<open>\<^verbatim>\<open>str(n)\<close> for an integer, and the text an f-string stands for, given the
  texts of the datetimes and of the Arabic sentences.\<close>

fun digits_of :: "nat \<Rightarrow> string" where
  "digits_of n = (if n < 10 then [char_of (48 + n)] else digits_of (n div 10) @ [char_of (48 + n mod 10)])"

declare digits_of.simps [simp del]

definition str_int :: "int \<Rightarrow> string" where
  "str_int i = (if i < 0 then CHR ''-'' # digits_of (nat (- i)) else digits_of (nat i))"

fun render_part :: "(datetime option \<Rightarrow> string) \<Rightarrow> (suggestion \<Rightarrow> string) \<Rightarrow> fpart \<Rightarrow> string" where
  "render_part ft fa (Lit s) = s"
| "render_part ft fa (IntArg i) = str_int i"
| "render_part ft fa (TimeArg t) = ft t"
| "render_part ft fa (Arabic a) = fa a"

definition render :: "(datetime option \<Rightarrow> string) \<Rightarrow> (suggestion \<Rightarrow> string) \<Rightarrow> fstring \<Rightarrow> string" where
  "render ft fa m = concat (map (render_part ft fa) m)"

subsection \<open>Input sanitising and validation (utils/validators.py, utils/validation.py)\<close>

text \<open>\<^verbatim>\<open>str.isspace\<close> on the code points below 256, and \<^verbatim>\<open>str.strip()\<close>.\<close>

definition isspace :: "char \<Rightarrow> bool" where
  "isspace c = (of_char c \<in> {9, 10, 11, 12, 13, 28, 29, 30, 31, 32, 133, 160 :: nat})"

definition strip :: "string \<Rightarrow> string" where
  "strip s = rev (dropWhile isspace (rev (dropWhile isspace s)))"

text \<open>The class \<^verbatim>\<open>[\x00-\x08\x0B\x0C\x0E-\x1F\x7F]\<close> that \<^verbatim>\<open>sanitize_input\<close> removes.\<close>

definition is_control :: "char \<Rightarrow> bool" where
  "is_control c =
     (let n = (of_char c :: nat)
      in n \<le> 8 \<or> n = 11 \<or> n = 12 \<or> (14 \<le> n \<and> n \<le> 31) \<or> n = 127)"

definition sanitize_input :: "string \<Rightarrow> nat option \<Rightarrow> string" where
  "sanitize_input text0 max_length =
     (let text1 = strip text0;
          text2 = filter (\<lambda>c. \<not> is_control c) text1
      in case max_length of
           None \<Rightarrow> text2
         | Some m \<Rightarrow> if m \<noteq> 0 \<and> length text2 > m then take m text2 else text2)"

text \<open>Character classes of the regular expressions.\<close>

definition is_upper :: "char \<Rightarrow> bool" where
  "is_upper c = (let n = (of_char c :: nat) in 65 \<le> n \<and> n \<le> 90)"

definition is_lower :: "char \<Rightarrow> bool" where
  "is_lower c = (let n = (of_char c :: nat) in 97 \<le> n \<and> n \<le> 122)"

definition is_digit :: "char \<Rightarrow> bool" where
  "is_digit c = (let n = (of_char c :: nat) in 48 \<le> n \<and> n \<le> 57)"

definition is_alnum :: "char \<Rightarrow> bool" where
  "is_alnum c = (is_upper c \<or> is_lower c \<or> is_digit c)"

text \<open>\<^verbatim>\<open>$\<close> without \<^verbatim>\<open>re.MULTILINE\<close> matches at the end of the string and
  before a newline that ends it.\<close>

definition dollar :: "(string \<Rightarrow> bool) \<Rightarrow> string \<Rightarrow> bool" where
  "dollar P s = (P s \<or> (s \<noteq> [] \<and> last s = CHR 0x0A \<and> P (butlast s)))"

text \<open>\<^verbatim>\<open>re.match(r'^[a-zA-Z0-9_-]+$', username)\<close>.\<close>

definition username_pattern :: "string \<Rightarrow> bool" where
  "username_pattern =
     dollar (\<lambda>s. s \<noteq> [] \<and> list_all (\<lambda>c. is_alnum c \<or> c = CHR ''_'' \<or> c = CHR ''-'') s)"

text \<open>\<^verbatim>\<open>^[a-zA-Z0-9._%+-]+@[a-zA-Z0-9.-]+\.[a-zA-Z]{2,}$\<close>: neither class holds
  \<^verbatim>\<open>@\<close>, so the local part ends at the first \<^verbatim>\<open>@\<close>; the last group holds no dot, so
  it starts after the last dot.\<close>

definition email_pattern :: "string \<Rightarrow> bool" where
  "email_pattern =
     dollar (\<lambda>s.
       let local_part = takeWhile (\<lambda>c. c \<noteq> CHR ''@'') s;
           rest = dropWhile (\<lambda>c. c \<noteq> CHR ''@'') s;
           after = tl rest;
           tld = rev (takeWhile (\<lambda>c. c \<noteq> CHR ''.'') (rev after));
           domain = butlast (rev (dropWhile (\<lambda>c. c \<noteq> CHR ''.'') (rev after)))
       in local_part \<noteq> []
          \<and> list_all (\<lambda>c. is_alnum c \<or> c \<in> set ''._%+-'') local_part
          \<and> rest \<noteq> []
          \<and> CHR ''.'' \<in> set after
          \<and> domain \<noteq> []
          \<and> list_all (\<lambda>c. is_alnum c \<or> c \<in> set ''.-'') domain
          \<and> 2 \<le> length tld
          \<and> list_all (\<lambda>c. is_upper c \<or> is_lower c) tld)"

definition validate_email :: "string \<Rightarrow> bool" where
  "validate_email email = (email \<noteq> [] \<and> email_pattern (strip email))"

text \<open>\<^verbatim>\<open>str.lower()\<close> on the code points below 256.\<close>

definition lower_char :: "char \<Rightarrow> char" where
  "lower_char c =
     (let n = (of_char c :: nat)
      in if (65 \<le> n \<and> n \<le> 90) \<or> (192 \<le> n \<and> n \<le> 222 \<and> n \<noteq> 215)
         then char_of (n + 32) else c)"

definition lower :: "string \<Rightarrow> string" where
  "lower s = map lower_char s"

text \<open>\<^verbatim>\<open>validate_password(password, min_length=8)\<close>: one point for each requirement
  met, valid from three points.\<close>

record password_result =
  pr_is_valid :: bool
  pr_score :: nat
  pr_suggestions :: "suggestion list"

definition special_chars :: string where
  "special_chars = ''!@#$%^&*(),.?'' @ [CHR 0x22] @ '':{}|<>''"

definition validate_password :: "string \<Rightarrow> nat \<Rightarrow> password_result" where
  "validate_password password min_length =
     (if password = [] then
        \<lparr>pr_is_valid = False, pr_score = 0, pr_suggestions = [PasswordRequired]\<rparr>
      else
        let checks =
              [(min_length \<le> length password, NeedMinLength (int min_length)),
               (list_ex is_upper password, NeedUppercase),
               (list_ex is_lower password, NeedLowercase),
               (list_ex is_digit password, NeedDigit),
               (list_ex (\<lambda>c. c \<in> set special_chars) password, NeedSpecial)];
            score = length (filter fst checks)
        in \<lparr>pr_is_valid = (3 \<le> score), pr_score = score,
            pr_suggestions = map snd (filter (\<lambda>c. \<not> fst c) checks)\<rparr>)"

text \<open>\<^verbatim>\<open>ValidationResult\<close>: only \<^verbatim>\<open>add_error\<close> is called by \<^verbatim>\<open>AuthValidator\<close>, so
  every message has severity error; \<^verbatim>\<open>is_valid\<close> is the absence of messages and
  \<^verbatim>\<open>errors\<close> their texts.\<close>

record ValidationMessage =
  vm_message :: fstring
  vm_field :: string
  vm_code :: string

definition add_error :: "fstring \<Rightarrow> string \<Rightarrow> string \<Rightarrow> ValidationMessage" where
  "add_error m f c = \<lparr>vm_message = m, vm_field = f, vm_code = c\<rparr>"

text \<open>\<^verbatim>\<open>BaseValidator._validate_required\<close> and \<^verbatim>\<open>_validate_length\<close>: the messages
  they add (none when the check passes). \<open>None\<close> is a key that is absent or holds
  \<^verbatim>\<open>None\<close>.\<close>

definition quoted :: "string \<Rightarrow> string" where
  "quoted s = [CHR 0x27] @ s @ [CHR 0x27]"

definition validate_required :: "string option \<Rightarrow> string \<Rightarrow> string \<Rightarrow> ValidationMessage list" where
  "validate_required v field display_name =
     (if v = None \<or> v = Some [] then
        [add_error [Lit ''Field '', Lit (quoted display_name), Lit '' is required''] field ''REQUIRED'']
      else [])"

definition validate_length :: "string \<Rightarrow> nat \<Rightarrow> nat \<Rightarrow> string \<Rightarrow> string \<Rightarrow> ValidationMessage list" where
  "validate_length v min_length max_length field display_name =
     (if min_length \<noteq> 0 \<and> length v < min_length then
        [add_error [Lit ''Field '', Lit (quoted display_name), Lit '' must be at least '',
                    IntArg (int min_length), Lit '' characters''] field ''MIN_LENGTH'']
      else if max_length \<noteq> 0 \<and> length v > max_length then
        [add_error [Lit ''Field '', Lit (quoted display_name), Lit '' must not exceed '',
                    IntArg (int max_length), Lit '' characters''] field ''MAX_LENGTH'']
      else [])"

text \<open>\<^verbatim>\<open>AuthValidator.validate_login_data\<close>.\<close>

record login_validation =
  lv_messages :: "ValidationMessage list"
  lv_username :: "string option"
  lv_password :: "string option"

definition validate_login_data :: "string \<Rightarrow> string \<Rightarrow> login_validation" where
  "validate_login_data username password =
     (let e1 = validate_required (Some username) ''username'' ''Username'';
          su = sanitize_input username (Some 100);
          e2 = (if e1 = [] then validate_length su 3 100 ''username'' ''Username'' else []);
          e3 = validate_required (Some password) ''password'' ''Password'';
          e4 = (if e3 = [] \<and> \<not> 0 < length password
                then [add_error [Lit ''Password cannot be empty''] ''password'' ''EMPTY_PASSWORD'']
                else [])
      in \<lparr>lv_messages = e1 @ e2 @ e3 @ e4,
          lv_username = (if e1 = [] \<and> e2 = [] then Some su else None),
          lv_password = (if e3 = [] \<and> 0 < length password then Some password else None)\<rparr>)"

text \<open>\<^verbatim>\<open>AuthValidator.validate_user_data\<close>. The dictionary it reads has string values
  under \<^verbatim>\<open>username\<close>, \<^verbatim>\<open>email\<close>, \<^verbatim>\<open>password\<close>, \<^verbatim>\<open>role\<close> and a Boolean under
  \<^verbatim>\<open>is_active\<close>, each key optional.\<close>

record user_data =
  in_username :: "string option"
  in_email :: "string option"
  in_password :: "string option"
  in_role :: "string option"
  in_is_active :: "bool option"

record user_validation =
  uv_messages :: "ValidationMessage list"
  uv_username :: "string option"
  uv_email :: "string option"
  uv_password :: "string option"
  uv_role :: "string option"
  uv_is_active :: "bool option"

text \<open>\<^verbatim>\<open>'k' in data and data['k']\<close>, and the string read under the key when that
  holds.\<close>

definition truthy :: "string option \<Rightarrow> bool" where
  "truthy v = (v \<noteq> None \<and> v \<noteq> Some [])"

definition str_of :: "string option \<Rightarrow> string" where
  "str_of v = (case v of None \<Rightarrow> [] | Some x \<Rightarrow> x)"

definition valid_roles :: "string list" where
  "valid_roles = [''admin'', ''pharmacist'', ''nutritionist'', ''assistant'', ''viewer'']"

definition validate_user_data :: "user_data \<Rightarrow> bool \<Rightarrow> user_validation" where
  "validate_user_data d is_update =
     (let e0 = (if \<not> is_update then
                  validate_required (in_username d) ''username'' ''username''
                  @ validate_required (in_email d) ''email'' ''email''
                  @ validate_required (in_password d) ''password'' ''password''
                  @ validate_required (in_role d) ''role'' ''role''
                else []);
          username = sanitize_input (str_of (in_username d)) (Some 50);
          e1 = (if truthy (in_username d) then
                  (let el = validate_length username 3 50 ''username'' ''Username''
                   in if el \<noteq> [] then el
                      else if username_pattern username then []
                      else [add_error [Lit ''Username can only contain letters, numbers, hyphens, and underscores'']
                              ''username'' ''INVALID_CHARS''])
                else []);
          email = sanitize_input (str_of (in_email d)) (Some 255);
          e2 = (if truthy (in_email d) \<and> \<not> validate_email email
                then [add_error [Lit ''Invalid email address format''] ''email'' ''INVALID_EMAIL'']
                else []);
          pres = validate_password (str_of (in_password d)) 8;
          e3 = (if truthy (in_password d) \<and> \<not> pr_is_valid pres
                then map (\<lambda>sg. add_error [Arabic sg] ''password'' ''WEAK_PASSWORD'') (pr_suggestions pres)
                else []);
          e4 = (if truthy (in_role d) \<and> str_of (in_role d) \<notin> set valid_roles
                then [add_error [Lit ''Role must be one of: '',
                                 Lit ''admin, pharmacist, nutritionist, assistant, viewer'']
                        ''role'' ''INVALID_ROLE'']
                else [])
      in \<lparr>uv_messages = e0 @ e1 @ e2 @ e3 @ e4,
          uv_username = (if truthy (in_username d) \<and> e1 = [] then Some username else None),
          uv_email = (if truthy (in_email d) \<and> validate_email email then Some (lower email) else None),
          uv_password = (if truthy (in_password d) \<and> pr_is_valid pres then in_password d else None),
          uv_role = (if truthy (in_role d) \<and> str_of (in_role d) \<in> set valid_roles then in_role d else None),
          uv_is_active = in_is_active d\<rparr>)"

text \<open>\<^verbatim>\<open>AuthValidator.validate_password\<close>: validity and the error texts.\<close>

definition AuthValidator_validate_password :: "string \<Rightarrow> bool \<times> fstring list" where
  "AuthValidator_validate_password password =
     (let pres = validate_password password 8
      in (pr_is_valid pres,
          if \<not> pr_is_valid pres then map (\<lambda>sg. [Arabic sg]) (pr_suggestions pres) else []))"

subsection \<open>Signals and log lines\<close>

datatype log_level = LOG_DEBUG | LOG_INFO | LOG_WARNING | LOG_ERROR

datatype signal =
    Log log_level fstring
  | error_occurred string fstring
  | success_occurred string fstring
  | data_changed string "(string \<times> string) list"
  | user_logged_in user_dict
  | user_logged_out string
  | user_created user_dict
  | user_updated user_dict
  | user_deleted string
  | session_expired string
  | login_failed string string
  | account_locked string
  | password_changed string

subsection \<open>The controller state\<close>

record AuthController =
  user_heap :: "User list"
  session_heap :: "Session list"
  users :: "(string \<times> nat) list"
  sessions :: "(string \<times> nat) list"
  current_user :: "nat option"
  current_session :: "nat option"
  initialized :: bool
  session_timer :: bool
  jwt_secret :: "string option"
  max_login_attempts :: int
  lockout_duration_minutes :: int
  session_timeout_hours :: int
  password_min_length :: int
  signals :: "signal list"

definition emit :: "signal \<Rightarrow> AuthController \<Rightarrow> AuthController" where
  "emit sg s = s\<lparr>signals := signals s @ [sg]\<rparr>"

text \<open>\<^verbatim>\<open>BaseController.emit_error\<close>, \<^verbatim>\<open>emit_success\<close>, \<^verbatim>\<open>emit_data_changed\<close>: a log
  line, then the signal.\<close>

definition emit_error :: "string \<Rightarrow> fstring \<Rightarrow> AuthController \<Rightarrow> AuthController" where
  "emit_error title message s =
     emit (error_occurred title message) (emit (Log LOG_ERROR (Lit title # Lit '': '' # message)) s)"

definition emit_success :: "string \<Rightarrow> fstring \<Rightarrow> AuthController \<Rightarrow> AuthController" where
  "emit_success title message s =
     emit (success_occurred title message) (emit (Log LOG_INFO (Lit title # Lit '': '' # message)) s)"

definition emit_data_changed :: "string \<Rightarrow> (string \<times> string) list \<Rightarrow> AuthController \<Rightarrow> AuthController" where
  "emit_data_changed operation payload s =
     emit (data_changed operation payload) (emit (Log LOG_DEBUG [Lit ''Data changed: '', Lit operation]) s)"

text \<open>Writing an object of a store, and allocating one.\<close>

definition set_user :: "nat \<Rightarrow> User \<Rightarrow> AuthController \<Rightarrow> AuthController" where
  "set_user a u s = s\<lparr>user_heap := (user_heap s)[a := u]\<rparr>"

definition set_session :: "nat \<Rightarrow> Session \<Rightarrow> AuthController \<Rightarrow> AuthController" where
  "set_session a se s = s\<lparr>session_heap := (session_heap s)[a := se]\<rparr>"

text \<open>\<^verbatim>\<open>__init__\<close> (with the flag \<^verbatim>\<open>_initialized\<close> of \<^verbatim>\<open>BaseController\<close>).\<close>

definition AuthController_init :: AuthController where
  "AuthController_init =
     \<lparr>user_heap = [], session_heap = [], users = [], sessions = [],
      current_user = None, current_session = None, initialized = False,
      session_timer = False,
      jwt_secret = None, max_login_attempts = 5, lockout_duration_minutes = 30,
      session_timeout_hours = 8, password_min_length = 8, signals = []\<rparr>"

subsection \<open>Password hashing\<close>

type_synonym hashfn = "string \<Rightarrow> string \<Rightarrow> string"

definition hash_password :: "hashfn \<Rightarrow> string \<Rightarrow> string \<Rightarrow> string" where
  "hash_password H password salt = H password salt"

definition verify_password :: "hashfn \<Rightarrow> string \<Rightarrow> string \<Rightarrow> string \<Rightarrow> bool" where
  "verify_password H password password_hash salt = (hash_password H password salt = password_hash)"

subsection \<open>Start-up\<close>

text \<open>\<^verbatim>\<open>_create_default_admin\<close> (the salt drawn from \<^verbatim>\<open>secrets\<close> is an argument).\<close>

definition create_default_admin :: "hashfn \<Rightarrow> datetime \<Rightarrow> string \<Rightarrow> User" where
  "create_default_admin H now salt =
     \<lparr>u_id = ''admin_001'', u_username = ''admin'', u_email = ''admin@pharmacy.local'',
      u_role = ADMIN, u_password_hash = hash_password H ''admin123'' salt, u_salt = salt,
      u_is_active = True, u_created_at = now, u_last_login = None,
      u_failed_login_attempts = 0, u_locked_until = None\<rparr>"

text \<open>\<^verbatim>\<open>_load_users\<close>: the default administrator when the dictionary is empty.\<close>

definition load_users :: "hashfn \<Rightarrow> datetime \<Rightarrow> string \<Rightarrow> AuthController \<Rightarrow> AuthController" where
  "load_users H now salt s =
     (if users s = [] then
        (let admin_user = create_default_admin H now salt;
             a = length (user_heap s)
         in emit (Log LOG_INFO [Lit ''Created default admin user''])
              (s\<lparr>user_heap := user_heap s @ [admin_user],
                 users := AList.update (u_id admin_user) a (users s)\<rparr>))
      else s)"

text \<open>The attributes \<^verbatim>\<open>_do_initialize\<close> reads from \<^verbatim>\<open>settings.security\<close>
  (config/simple_settings.py). That class has no attribute \<^verbatim>\<open>password_min_length\<close>,
  so \<^verbatim>\<open>getattr\<close> yields its default 8.\<close>

record SecuritySettings =
  cfg_jwt_secret :: string
  cfg_max_login_attempts :: int
  cfg_lockout_duration_minutes :: int
  cfg_session_timeout_hours :: int

definition do_initialize :: "hashfn \<Rightarrow> SecuritySettings \<Rightarrow> datetime \<Rightarrow> string \<Rightarrow> AuthController \<Rightarrow> bool \<times> AuthController" where
  "do_initialize H settings now salt s =
     (let s1 = s\<lparr>jwt_secret := Some (cfg_jwt_secret settings),
                 max_login_attempts := cfg_max_login_attempts settings,
                 lockout_duration_minutes := cfg_lockout_duration_minutes settings,
                 session_timeout_hours := cfg_session_timeout_hours settings,
                 password_min_length := 8\<rparr>;
          s2 = load_users H now salt s1;
          s3 = s2\<lparr>session_timer := True\<rparr>
      in (True, emit (Log LOG_INFO [Lit ''AuthController initialized successfully'']) s3))"

subsection \<open>Authorization\<close>

text \<open>\<^verbatim>\<open>AuthController.has_permission\<close>: the check is made on the \<^verbatim>\<open>User\<close> object
  that \<^verbatim>\<open>current_user\<close> refers to.\<close>

definition has_permission :: "datetime \<Rightarrow> Permission \<Rightarrow> AuthController \<Rightarrow> bool" where
  "has_permission now permission s =
     (case current_user s of
        None \<Rightarrow> False
      | Some ua \<Rightarrow>
          (case current_session s of
             None \<Rightarrow> False
           | Some sa \<Rightarrow>
               if \<not> is_valid now (session_heap s ! sa) then False
               else user_has_permission (user_heap s ! ua) permission))"

definition require_permission :: "datetime \<Rightarrow> Permission \<Rightarrow> AuthController \<Rightarrow> bool \<times> AuthController" where
  "require_permission now permission s =
     (if \<not> has_permission now permission s then
        (False, emit_error ''Permission Denied''
                  [Lit ''You don't have permission: '', Lit (permission_value permission)] s)
      else (True, s))"

definition is_authenticated :: "datetime \<Rightarrow> AuthController \<Rightarrow> bool" where
  "is_authenticated now s =
     (case current_user s of
        None \<Rightarrow> False
      | Some ua \<Rightarrow>
          (case current_session s of
             None \<Rightarrow> False
           | Some sa \<Rightarrow> is_valid now (session_heap s ! sa)))"

definition get_current_user :: "datetime \<Rightarrow> AuthController \<Rightarrow> user_dict option" where
  "get_current_user now s =
     (case current_user s of None \<Rightarrow> None | Some ua \<Rightarrow> Some (to_dict now (user_heap s ! ua)))"

definition get_current_session :: "datetime \<Rightarrow> AuthController \<Rightarrow> session_dict option" where
  "get_current_session now s =
     (case current_session s of
        None \<Rightarrow> None
      | Some sa \<Rightarrow> Some (session_to_dict now (session_heap s ! sa)))"

subsection \<open>Lookup\<close>

text \<open>\<^verbatim>\<open>_find_user_by_username_or_email\<close>: the first user, in the order of the
  dictionary, whose username or email is the identifier.\<close>

fun find_user_in :: "User list \<Rightarrow> (string \<times> nat) list \<Rightarrow> string \<Rightarrow> nat option" where
  "find_user_in h [] identifier = None"
| "find_user_in h ((k, a) # rest) identifier =
     (if u_username (h ! a) = identifier \<or> u_email (h ! a) = identifier then Some a
      else find_user_in h rest identifier)"

definition find_user_by_username_or_email :: "AuthController \<Rightarrow> string \<Rightarrow> nat option" where
  "find_user_by_username_or_email s identifier = find_user_in (user_heap s) (users s) identifier"

subsection \<open>Sessions\<close>

text \<open>\<^verbatim>\<open>_create_session\<close> (the session id drawn from \<^verbatim>\<open>secrets\<close> is an argument): a
  new object, registered under its id. It returns the address of the object.\<close>

definition create_session :: "datetime \<Rightarrow> string \<Rightarrow> nat \<Rightarrow> int \<Rightarrow> AuthController \<Rightarrow> nat \<times> AuthController" where
  "create_session now session_id ua duration_hours s =
     (let user = user_heap s ! ua;
          expires_at = now + timedelta_hours duration_hours;
          session = new_Session now session_id (u_id user) (u_username user) (u_role user) expires_at;
          sa = length (session_heap s)
      in (sa, s\<lparr>session_heap := session_heap s @ [session],
                 sessions := AList.update session_id sa (sessions s)\<rparr>))"

text \<open>\<^verbatim>\<open>_handle_session_expiry\<close>.\<close>

definition handle_session_expiry :: "AuthController \<Rightarrow> AuthController" where
  "handle_session_expiry s =
     (case current_user s of
        None \<Rightarrow> s
      | Some ua \<Rightarrow>
          (let username = u_username (user_heap s ! ua);
               s1 = s\<lparr>current_user := None, current_session := None\<rparr>;
               s2 = emit_error ''Session Expired''
                      [Lit ''Your session has expired. Please log in again.''] s1
           in emit (user_logged_out username) s2))"

text \<open>The body of the second loop of \<^verbatim>\<open>_check_session_expiry\<close>, for one id.\<close>

definition expire_session :: "string \<Rightarrow> AuthController \<Rightarrow> AuthController" where
  "expire_session session_id s =
     (case map_of (sessions s) session_id of
        None \<Rightarrow> s
      | Some a \<Rightarrow>
          (let s1 = s\<lparr>sessions := AList.delete session_id (sessions s)\<rparr>;
               s2 = set_session a ((session_heap s1 ! a)\<lparr>s_status := EXPIRED\<rparr>) s1;
               s3 = emit (session_expired session_id) s2
           in if (case current_session s3 of
                    None \<Rightarrow> False
                  | Some ca \<Rightarrow> s_session_id (session_heap s3 ! ca) = session_id)
              then handle_session_expiry s3 else s3))"

text \<open>\<^verbatim>\<open>_check_session_expiry\<close>, the slot of the one-minute timer.\<close>

definition check_session_expiry :: "datetime \<Rightarrow> AuthController \<Rightarrow> AuthController" where
  "check_session_expiry now s =
     (let expired_sessions =
            map fst (filter (\<lambda>(session_id, a). \<not> is_valid now (session_heap s ! a)) (sessions s))
      in fold expire_session expired_sessions s)"

subsection \<open>Authentication\<close>

definition login :: "hashfn \<Rightarrow> datetime \<Rightarrow> string \<Rightarrow> string \<Rightarrow> string \<Rightarrow> bool \<Rightarrow> AuthController \<Rightarrow> bool \<times> AuthController" where
  "login H now new_session_id username password remember_me s =
     (let validation_result = validate_login_data username password
      in if lv_messages validation_result \<noteq> [] then
           (False, emit_error ''Login Error''
                     (Lit ''Invalid login data: ''
                      # join [Lit ''; ''] (map vm_message (lv_messages validation_result))) s)
         else
           case find_user_by_username_or_email s username of
             None \<Rightarrow>
               (False, emit_error ''Login Failed'' [Lit ''Invalid username or password'']
                         (emit (login_failed username ''User not found'') s))
           | Some ua \<Rightarrow>
               (let user = user_heap s ! ua
                in if \<not> u_is_active user then
                     (False, emit_error ''Login Failed'' [Lit ''Account is inactive'']
                               (emit (login_failed username ''Account inactive'') s))
                   else if is_locked now user then
                     (False, emit_error ''Account Locked''
                               [Lit ''Account is locked until '', TimeArg (u_locked_until user)]
                               (emit (account_locked username) s))
                   else if \<not> verify_password H password (u_password_hash user) (u_salt user) then
                     (let user1 = user\<lparr>u_failed_login_attempts := u_failed_login_attempts user + 1\<rparr>;
                          s1 = (if u_failed_login_attempts user1 \<ge> max_login_attempts s then
                                  emit_error ''Account Locked''
                                    [Lit ''Account locked due to too many failed attempts. '',
                                     Lit ''Try again in '', IntArg (lockout_duration_minutes s),
                                     Lit '' minutes.'']
                                    (emit (account_locked username)
                                       (set_user ua
                                          (user1\<lparr>u_locked_until :=
                                             Some (now + timedelta_minutes (lockout_duration_minutes s))\<rparr>) s))
                                else
                                  emit_error ''Login Failed''
                                    [Lit ''Invalid password. '',
                                     IntArg (max_login_attempts s - u_failed_login_attempts user1),
                                     Lit '' attempts remaining.'']
                                    (set_user ua user1 s))
                      in (False, emit (login_failed username ''Invalid password'') s1))
                   else
                     (let user1 = user\<lparr>u_failed_login_attempts := 0, u_locked_until := None,
                                        u_last_login := Some now\<rparr>;
                          s1 = set_user ua user1 s;
                          session_duration = (if remember_me then 24 else session_timeout_hours s);
                          (sa, s2) = create_session now new_session_id ua session_duration s1;
                          s3 = s2\<lparr>current_user := Some ua, current_session := Some sa\<rparr>;
                          s4 = emit_success ''Login Successful''
                                 [Lit ''Welcome back, '', Lit (u_username user1), Lit ''!''] s3;
                          s5 = emit (user_logged_in (to_dict now user1)) s4;
                          s6 = emit_data_changed ''user_logged_in''
                                 [(''user_id'', u_id user1), (''username'', u_username user1),
                                  (''role'', role_value (u_role user1))] s5;
                          s7 = emit (Log LOG_INFO [Lit ''User '', Lit username,
                                                   Lit '' logged in successfully'']) s6
                      in (True, s7))))"

definition logout :: "AuthController \<Rightarrow> bool \<times> AuthController" where
  "logout s =
     (case current_user s of
        None \<Rightarrow> (False, emit_error ''Logout Error'' [Lit ''No active session to logout''] s)
      | Some ua \<Rightarrow>
          (case current_session s of
             None \<Rightarrow> (False, emit_error ''Logout Error'' [Lit ''No active session to logout''] s)
           | Some sa \<Rightarrow>
               (let username = u_username (user_heap s ! ua);
                    session_id = s_session_id (session_heap s ! sa);
                    s1 = (case map_of (sessions s) session_id of
                            None \<Rightarrow> s
                          | Some a \<Rightarrow>
                              (set_session a ((session_heap s ! a)\<lparr>s_status := TERMINATED\<rparr>) s)
                                \<lparr>sessions := AList.delete session_id (sessions s)\<rparr>);
                    s2 = s1\<lparr>current_user := None, current_session := None\<rparr>;
                    s3 = emit_success ''Logout Successful''
                           [Lit ''You have been logged out successfully''] s2;
                    s4 = emit (user_logged_out username) s3;
                    s5 = emit_data_changed ''user_logged_out'' [(''username'', username)] s4;
                    s6 = emit (Log LOG_INFO [Lit ''User '', Lit username,
                                             Lit '' logged out successfully'']) s5
                in (True, s6))))"

text \<open>\<^verbatim>\<open>change_password\<close> (the new salt drawn from \<^verbatim>\<open>secrets\<close> is an argument).\<close>

definition change_password :: "hashfn \<Rightarrow> string \<Rightarrow> string \<Rightarrow> string \<Rightarrow> AuthController \<Rightarrow> bool \<times> AuthController" where
  "change_password H new_salt current_password new_password s =
     (case current_user s of
        None \<Rightarrow> (False, emit_error ''Authorization Error'' [Lit ''No active session''] s)
      | Some ua \<Rightarrow>
          (let user = user_heap s ! ua
           in if \<not> verify_password H current_password (u_password_hash user) (u_salt user) then
                (False, emit_error ''Password Change Failed''
                          [Lit ''Current password is incorrect''] s)
              else
                (let (ok, errors) = AuthValidator_validate_password new_password
                 in if \<not> ok then
                      (False, emit_error ''Password Validation Error''
                                (Lit ''New password is invalid: '' # join [Lit ''; ''] errors) s)
                    else
                      (let user1 = user\<lparr>u_salt := new_salt,
                                         u_password_hash := hash_password H new_password new_salt\<rparr>;
                           s1 = set_user ua user1 s;
                           s2 = emit_success ''Password Changed''
                                  [Lit ''Password changed successfully''] s1;
                           s3 = emit (password_changed (u_username user1)) s2;
                           s4 = emit (Log LOG_INFO [Lit ''Password changed for user '',
                                                    Lit (u_username user1)]) s3
                       in (True, s4)))))"

subsection \<open>User management\<close>

text \<open>The name \<^verbatim>\<open>current_user.username if current_user else 'system'\<close> of the log
  lines.\<close>

definition actor_name :: "AuthController \<Rightarrow> string" where
  "actor_name s =
     (case current_user s of None \<Rightarrow> ''system'' | Some ca \<Rightarrow> u_username (user_heap s ! ca))"

text \<open>\<^verbatim>\<open>create_user\<close>. The user id is \<^verbatim>\<open>user_\<close>, the clock as fourteen digits, an
  underscore and \<^verbatim>\<open>secrets.token_hex(4)\<close>: the last two and the salt are arguments.
  \<^verbatim>\<open>UserRole(...)\<close> is the one call that can raise here; its handler is the branch
  for \<open>None\<close>.\<close>

definition create_user :: "hashfn \<Rightarrow> datetime \<Rightarrow> string \<Rightarrow> string \<Rightarrow> string \<Rightarrow> user_data \<Rightarrow> AuthController \<Rightarrow> string option \<times> AuthController" where
  "create_user H now stamp token salt data s =
     (if \<not> has_permission now USER_MANAGE s then
        (None, emit_error ''Permission Denied''
                 [Lit ''You don't have permission to create users''] s)
      else
        (let validation_result = validate_user_data data False
         in if uv_messages validation_result \<noteq> [] then
              (None, emit_error ''Validation Error''
                       (Lit ''User data validation failed: ''
                        # join [Lit ''; ''] (map vm_message (uv_messages validation_result))) s)
            else if find_user_by_username_or_email s (str_of (uv_username validation_result)) \<noteq> None then
              (None, emit_error ''User Creation Error'' [Lit ''Username already exists''] s)
            else if find_user_by_username_or_email s (str_of (uv_email validation_result)) \<noteq> None then
              (None, emit_error ''User Creation Error'' [Lit ''Email already exists''] s)
            else
              (case UserRole_of (str_of (uv_role validation_result)) of
                 None \<Rightarrow>
                   (None, emit_error ''User Creation Error''
                            [Lit ''Failed to create user: '',
                             Lit (quoted (str_of (uv_role validation_result))),
                             Lit '' is not a valid UserRole'']
                            (emit (Log LOG_ERROR
                                     [Lit ''Error creating user: '',
                                      Lit (quoted (str_of (uv_role validation_result))),
                                      Lit '' is not a valid UserRole'']) s))
               | Some role \<Rightarrow>
                   (let user_id = ''user_'' @ stamp @ ''_'' @ token;
                        user = \<lparr>u_id = user_id,
                                u_username = str_of (uv_username validation_result),
                                u_email = str_of (uv_email validation_result),
                                u_role = role,
                                u_password_hash =
                                  hash_password H (str_of (uv_password validation_result)) salt,
                                u_salt = salt,
                                u_is_active =
                                  (case uv_is_active validation_result of
                                     None \<Rightarrow> True | Some b \<Rightarrow> b),
                                u_created_at = now, u_last_login = None,
                                u_failed_login_attempts = 0, u_locked_until = None\<rparr>;
                        a = length (user_heap s);
                        s1 = s\<lparr>user_heap := user_heap s @ [user],
                               users := AList.update user_id a (users s)\<rparr>;
                        s2 = emit_success ''User Created''
                               [Lit ''User '', Lit (u_username user), Lit '' created successfully''] s1;
                        s3 = emit (user_created (to_dict now user)) s2;
                        s4 = emit_data_changed ''user_created'' [(''user_id'', user_id)] s3;
                        s5 = emit (Log LOG_INFO [Lit ''User '', Lit (u_username user),
                                                 Lit '' created by '', Lit (actor_name s4)]) s4
                    in (Some user_id, s5)))))"

text \<open>The test \<^verbatim>\<open>existing_user and existing_user.id != user_id\<close> of \<^verbatim>\<open>update_user\<close>.\<close>

definition taken_by_other :: "AuthController \<Rightarrow> string \<Rightarrow> string \<Rightarrow> bool" where
  "taken_by_other s identifier user_id =
     (case find_user_by_username_or_email s identifier of
        None \<Rightarrow> False
      | Some a \<Rightarrow> u_id (user_heap s ! a) \<noteq> user_id)"

text \<open>\<^verbatim>\<open>update_user\<close>: the fields are written one after the other, each write
  standing when a later check returns.\<close>

definition update_user :: "datetime \<Rightarrow> string \<Rightarrow> user_data \<Rightarrow> AuthController \<Rightarrow> bool \<times> AuthController" where
  "update_user now user_id updated_data s =
     (if \<not> has_permission now USER_MANAGE s then
        (False, emit_error ''Permission Denied''
                  [Lit ''You don't have permission to update users''] s)
      else
        case map_of (users s) user_id of
          None \<Rightarrow>
            (False, emit_error ''User Not Found''
                      [Lit ''User with ID '', Lit user_id, Lit '' not found''] s)
        | Some ua \<Rightarrow>
            (let validation_result = validate_user_data updated_data True
             in if uv_messages validation_result \<noteq> [] then
                  (False, emit_error ''Validation Error''
                            (Lit ''Update data validation failed: ''
                             # join [Lit ''; ''] (map vm_message (uv_messages validation_result))) s)
                else if uv_username validation_result \<noteq> None
                        \<and> taken_by_other s (str_of (uv_username validation_result)) user_id then
                  (False, emit_error ''Update Error'' [Lit ''Username already exists''] s)
                else
                  (let s1 = (case uv_username validation_result of
                               None \<Rightarrow> s
                             | Some n \<Rightarrow> set_user ua ((user_heap s ! ua)\<lparr>u_username := n\<rparr>) s)
                   in if uv_email validation_result \<noteq> None
                         \<and> taken_by_other s1 (str_of (uv_email validation_result)) user_id then
                        (False, emit_error ''Update Error'' [Lit ''Email already exists''] s1)
                      else
                        (let s2 = (case uv_email validation_result of
                                     None \<Rightarrow> s1
                                   | Some e \<Rightarrow> set_user ua ((user_heap s1 ! ua)\<lparr>u_email := e\<rparr>) s1)
                         in if uv_role validation_result \<noteq> None
                               \<and> UserRole_of (str_of (uv_role validation_result)) = None then
                              (False, emit_error ''User Update Error''
                                        [Lit ''Failed to update user: '',
                                         Lit (quoted (str_of (uv_role validation_result))),
                                         Lit '' is not a valid UserRole'']
                                        (emit (Log LOG_ERROR
                                                 [Lit ''Error updating user: '',
                                                  Lit (quoted (str_of (uv_role validation_result))),
                                                  Lit '' is not a valid UserRole'']) s2))
                            else
                              (let s3 = (case uv_role validation_result of
                                           None \<Rightarrow> s2
                                         | Some r \<Rightarrow>
                                             (case UserRole_of r of
                                                None \<Rightarrow> s2
                                              | Some role \<Rightarrow>
                                                  set_user ua ((user_heap s2 ! ua)\<lparr>u_role := role\<rparr>) s2));
                                   s4 = (case uv_is_active validation_result of
                                           None \<Rightarrow> s3
                                         | Some b \<Rightarrow>
                                             set_user ua ((user_heap s3 ! ua)\<lparr>u_is_active := b\<rparr>) s3);
                                   user = user_heap s4 ! ua;
                                   s5 = emit_success ''User Updated''
                                          [Lit ''User '', Lit (u_username user),
                                           Lit '' updated successfully''] s4;
                                   s6 = emit (user_updated (to_dict now user)) s5;
                                   s7 = emit_data_changed ''user_updated'' [(''user_id'', user_id)] s6;
                                   s8 = emit (Log LOG_INFO [Lit ''User '', Lit (u_username user),
                                                            Lit '' updated by '', Lit (actor_name s7)]) s7
                               in (True, s8))))))"

text \<open>\<^verbatim>\<open>delete_user\<close>: a soft delete. The sessions of the user leave the dictionary;
  their objects are not written.\<close>

definition delete_user :: "datetime \<Rightarrow> string \<Rightarrow> AuthController \<Rightarrow> bool \<times> AuthController" where
  "delete_user now user_id s =
     (if \<not> has_permission now USER_MANAGE s then
        (False, emit_error ''Permission Denied''
                  [Lit ''You don't have permission to delete users''] s)
      else
        case map_of (users s) user_id of
          None \<Rightarrow>
            (False, emit_error ''User Not Found''
                      [Lit ''User with ID '', Lit user_id, Lit '' not found''] s)
        | Some ua \<Rightarrow>
            if (case current_user s of
                  None \<Rightarrow> False
                | Some ca \<Rightarrow> user_id = u_id (user_heap s ! ca)) then
              (False, emit_error ''Delete Error'' [Lit ''Cannot delete your own account''] s)
            else
              (let s1 = set_user ua ((user_heap s ! ua)\<lparr>u_is_active := False\<rparr>) s;
                   user = user_heap s1 ! ua;
                   sessions_to_remove =
                     map fst (filter (\<lambda>(session_id, a). s_user_id (session_heap s1 ! a) = user_id)
                                (sessions s1));
                   s2 = s1\<lparr>sessions := fold AList.delete sessions_to_remove (sessions s1)\<rparr>;
                   s3 = emit_success ''User Deleted''
                          [Lit ''User '', Lit (u_username user), Lit '' deactivated successfully''] s2;
                   s4 = emit (user_deleted user_id) s3;
                   s5 = emit_data_changed ''user_deleted'' [(''user_id'', user_id)] s4;
                   s6 = emit (Log LOG_INFO [Lit ''User '', Lit (u_username user),
                                            Lit '' deleted by '', Lit (actor_name s5)]) s5
               in (True, s6)))"

definition get_all_users :: "datetime \<Rightarrow> bool \<Rightarrow> AuthController \<Rightarrow> user_dict list" where
  "get_all_users now include_inactive s =
     (if \<not> has_permission now USER_MANAGE s then []
      else map (\<lambda>(k, a). to_dict now (user_heap s ! a))
             (filter (\<lambda>(k, a). include_inactive \<or> u_is_active (user_heap s ! a)) (users s)))"

subsection \<open>Session management\<close>

definition extend_current_session :: "datetime \<Rightarrow> int \<Rightarrow> AuthController \<Rightarrow> bool \<times> AuthController" where
  "extend_current_session now hours s =
     (case current_session s of
        None \<Rightarrow> (False, s)
      | Some sa \<Rightarrow> (True, set_session sa (extend_session now hours (session_heap s ! sa)) s))"

definition get_active_sessions :: "datetime \<Rightarrow> AuthController \<Rightarrow> session_dict list" where
  "get_active_sessions now s =
     (if \<not> has_permission now AUDIT_VIEW s then []
      else map (\<lambda>(k, a). session_to_dict now (session_heap s ! a))
             (filter (\<lambda>(k, a). is_valid now (session_heap s ! a)) (sessions s)))"

definition terminate_session :: "datetime \<Rightarrow> string \<Rightarrow> AuthController \<Rightarrow> bool \<times> AuthController" where
  "terminate_session now session_id s =
     (if \<not> has_permission now USER_MANAGE s then
        (False, emit_error ''Permission Denied''
                  [Lit ''You don't have permission to terminate sessions''] s)
      else
        case map_of (sessions s) session_id of
          Some a \<Rightarrow>
            (let s1 = set_session a ((session_heap s ! a)\<lparr>s_status := TERMINATED\<rparr>) s;
                 s2 = s1\<lparr>sessions := AList.delete session_id (sessions s1)\<rparr>
             in (True, emit_success ''Session Terminated''
                         [Lit ''Session '', Lit session_id, Lit '' terminated''] s2))
        | None \<Rightarrow>
            (False, emit_error ''Session Not Found''
                      [Lit ''Session '', Lit session_id, Lit '' not found''] s))"

definition reset_failed_login_attempts :: "datetime \<Rightarrow> string \<Rightarrow> AuthController \<Rightarrow> bool \<times> AuthController" where
  "reset_failed_login_attempts now username s =
     (if \<not> has_permission now USER_MANAGE s then
        (False, emit_error ''Permission Denied''
                  [Lit ''You don't have permission to reset login attempts''] s)
      else
        case find_user_by_username_or_email s username of
          None \<Rightarrow>
            (False, emit_error ''User Not Found''
                      [Lit ''User '', Lit username, Lit '' not found''] s)
        | Some ua \<Rightarrow>
            (let s1 = set_user ua ((user_heap s ! ua)\<lparr>u_failed_login_attempts := 0,
                                                        u_locked_until := None\<rparr>) s
             in (True, emit_success ''Login Attempts Reset''
                         [Lit ''Failed login attempts reset for '', Lit username] s1)))"

definition cleanup :: "AuthController \<Rightarrow> AuthController" where
  "cleanup s =
     (let s1 = s\<lparr>session_timer := False, current_user := None, current_session := None,
                 sessions := []\<rparr>;
          s2 = emit (Log LOG_INFO [Lit ''AuthController cleaned up'']) s1
      in emit (Log LOG_INFO [Lit ''AuthController cleaned up successfully'']) s2)"

subsection \<open>Bearer tokens\<close>

text \<open>The payload of a token. \<^verbatim>\<open>jwt.encode\<close> and \<^verbatim>\<open>jwt.decode\<close> belong to the PyJWT
  library; they are parameters. An encoder yields the token or raises (\<open>Inl\<close>, with
  the text of the exception); a decoder yields the payload or raises one of the
  exceptions that \<^verbatim>\<open>verify_jwt_token\<close> tells apart.\<close>

record jwt_payload =
  jp_user_id :: string
  jp_username :: string
  jp_role :: string
  jp_exp :: datetime
  jp_iat :: datetime

datatype jwt_decoded =
  Decoded jwt_payload | ExpiredSignatureError | InvalidTokenError | OtherError string

type_synonym jwt_encoder = "jwt_payload \<Rightarrow> string option \<Rightarrow> string + string"

type_synonym jwt_decoder = "string \<Rightarrow> string option \<Rightarrow> jwt_decoded"

definition generate_jwt_token :: "jwt_encoder \<Rightarrow> datetime \<Rightarrow> User \<Rightarrow> AuthController \<Rightarrow> string \<times> AuthController" where
  "generate_jwt_token encode utcnow user s =
     (let payload = \<lparr>jp_user_id = u_id user, jp_username = u_username user,
                     jp_role = role_value (u_role user),
                     jp_exp = utcnow + timedelta_hours 24, jp_iat = utcnow\<rparr>
      in case encode payload (jwt_secret s) of
           Inr token \<Rightarrow> (token, s)
         | Inl e \<Rightarrow> ([], emit (Log LOG_ERROR [Lit ''Error generating JWT token: '', Lit e]) s))"

definition verify_jwt_token :: "jwt_decoder \<Rightarrow> string \<Rightarrow> AuthController \<Rightarrow> jwt_payload option \<times> AuthController" where
  "verify_jwt_token decode token s =
     (case decode token (jwt_secret s) of
        Decoded payload \<Rightarrow> (Some payload, s)
      | ExpiredSignatureError \<Rightarrow>
          (None, emit (Log LOG_WARNING [Lit ''JWT token has expired'']) s)
      | InvalidTokenError \<Rightarrow>
          (None, emit (Log LOG_WARNING [Lit ''Invalid JWT token'']) s)
      | OtherError e \<Rightarrow>
          (None, emit (Log LOG_ERROR [Lit ''Error verifying JWT token: '', Lit e]) s))"

subsection \<open>BaseController.initialize, and the calls a client can make\<close>

text \<open>\<^verbatim>\<open>BaseController.initialize\<close>: \<^verbatim>\<open>_do_initialize\<close> runs until it has succeeded
  once.\<close>

definition initialize :: "hashfn \<Rightarrow> SecuritySettings \<Rightarrow> datetime \<Rightarrow> string \<Rightarrow> AuthController \<Rightarrow> bool \<times> AuthController" where
  "initialize H settings now salt s =
     (if initialized s then (True, s)
      else
        (let (success, s1) = do_initialize H settings now salt s
         in if success then
              (True, emit (Log LOG_INFO [Lit ''AuthController initialized successfully''])
                       (s1\<lparr>initialized := True\<rparr>))
            else
              (False, emit (Log LOG_ERROR [Lit ''Failed to initialize AuthController'']) s1)))"

text \<open>The calls that write the controller (its dictionaries, its objects or its trace),
  each with the arguments and the environment values it consumes. The queries
  (\<open>has_permission\<close>, \<open>is_authenticated\<close>, \<open>get_current_user\<close>,
  \<open>get_current_session\<close>, \<open>get_all_users\<close>, \<open>get_active_sessions\<close>) write nothing.\<close>

datatype operation =
    Initialize SecuritySettings datetime string
  | Login datetime string string string bool
  | Logout
  | ChangePassword string string string
  | CreateUser datetime string string string user_data
  | UpdateUser datetime string user_data
  | DeleteUser datetime string
  | RequirePermission datetime Permission
  | ExtendCurrentSession datetime int
  | TerminateSession datetime string
  | ResetFailedLoginAttempts datetime string
  | GenerateJwtToken datetime User
  | VerifyJwtToken string
  | CheckSessionExpiry datetime
  | Cleanup

record library =
  pbkdf2_hmac :: hashfn
  jwt_encode :: jwt_encoder
  jwt_decode :: jwt_decoder

fun exec :: "library \<Rightarrow> operation \<Rightarrow> AuthController \<Rightarrow> AuthController" where
  "exec L (Initialize settings now salt) s = snd (initialize (pbkdf2_hmac L) settings now salt s)"
| "exec L (Login now new_session_id username password remember_me) s =
     snd (login (pbkdf2_hmac L) now new_session_id username password remember_me s)"
| "exec L Logout s = snd (logout s)"
| "exec L (ChangePassword new_salt current_password new_password) s =
     snd (change_password (pbkdf2_hmac L) new_salt current_password new_password s)"
| "exec L (CreateUser now stamp token salt data) s =
     snd (create_user (pbkdf2_hmac L) now stamp token salt data s)"
| "exec L (UpdateUser now user_id data) s = snd (update_user now user_id data s)"
| "exec L (DeleteUser now user_id) s = snd (delete_user now user_id s)"
| "exec L (RequirePermission now permission) s = snd (require_permission now permission s)"
| "exec L (ExtendCurrentSession now hours) s = snd (extend_current_session now hours s)"
| "exec L (TerminateSession now session_id) s = snd (terminate_session now session_id s)"
| "exec L (ResetFailedLoginAttempts now username) s =
     snd (reset_failed_login_attempts now username s)"
| "exec L (GenerateJwtToken utcnow user) s = snd (generate_jwt_token (jwt_encode L) utcnow user s)"
| "exec L (VerifyJwtToken token) s = snd (verify_jwt_token (jwt_decode L) token s)"
| "exec L (CheckSessionExpiry now) s = check_session_expiry now s"
| "exec L Cleanup s = cleanup s"

text \<open>A run: the calls of a list, in order.\<close>

fun run :: "library \<Rightarrow> operation list \<Rightarrow> AuthController \<Rightarrow> AuthController" where
  "run L [] s = s"
| "run L (c # cs) s = run L cs (exec L c s)"

text \<open>The states a controller can be in: a new controller, and what calls make of it.\<close>

inductive reachable :: "library \<Rightarrow> AuthController \<Rightarrow> bool" for L :: library where
  new: "reachable L AuthController_init"
| call: "reachable L s \<Longrightarrow> reachable L (exec L c s)"

section \<open>Example inputs\<close>

text \<open>Stand-ins for the library functions, settings with the lockout threshold 3, and
  states reached by runs from a new controller; the examples below are evaluated on
  them.\<close>

definition example_hash :: hashfn where
  "example_hash password salt = salt @ ''$'' @ password"

definition example_decode :: jwt_decoder where
  "example_decode token secret =
     (if token = ''expired'' then ExpiredSignatureError
      else if token = ''tampered'' then InvalidTokenError
      else if token = ''good'' then
        Decoded \<lparr>jp_user_id = ''admin_001'', jp_username = ''admin'', jp_role = ''admin'',
                 jp_exp = 86400000000, jp_iat = 0\<rparr>
      else OtherError ''failure'')"

definition example_encode :: jwt_encoder where
  "example_encode payload secret = Inr ''good''"

definition example_library :: library where
  "example_library =
     \<lparr>pbkdf2_hmac = example_hash, jwt_encode = example_encode, jwt_decode = example_decode\<rparr>"

definition example_settings :: SecuritySettings where
  "example_settings =
     \<lparr>cfg_jwt_secret = ''secret'', cfg_max_login_attempts = 3,
      cfg_lockout_duration_minutes = 30, cfg_session_timeout_hours = 8\<rparr>"

definition started :: AuthController where
  "started = run example_library [Initialize example_settings 0 ''5a17''] AuthController_init"

definition admin_logged_in :: AuthController where
  "admin_logged_in = run example_library [Login 1 ''sid-1'' ''admin'' ''admin123'' False] started"

definition example_viewer :: User where
  "example_viewer = (create_default_admin example_hash 0 ''5a17'')\<lparr>u_role := VIEWER\<rparr>"

section \<open>Notions used in the statements\<close>

text \<open>The login form passes \<^verbatim>\<open>validate_login_data\<close>.\<close>

definition accepted_login_data :: "string \<Rightarrow> string \<Rightarrow> bool" where
  "accepted_login_data username password =
     (lv_messages (validate_login_data username password) = [])"

text \<open>Successive login attempts under one username, each with its clock reading, the
  session id it would use, its password and its remember-me flag; the results of the
  attempts and the final state.\<close>

fun logins :: "hashfn \<Rightarrow> string \<Rightarrow> (datetime \<times> string \<times> string \<times> bool) list \<Rightarrow> AuthController \<Rightarrow> bool list \<times> AuthController" where
  "logins H username [] s = ([], s)"
| "logins H username ((now, session_id, password, remember_me) # rest) s =
     (let (ok, s1) = login H now session_id username password remember_me s;
          (oks, s2) = logins H username rest s1
      in (ok # oks, s2))"

text \<open>The dialogs a client is shown: the title and text of every \<open>error_occurred\<close>
  signal of a trace.\<close>

fun error_dialogs :: "signal list \<Rightarrow> (string \<times> fstring) list" where
  "error_dialogs [] = []"
| "error_dialogs (error_occurred title message # rest) = (title, message) # error_dialogs rest"
| "error_dialogs (other # rest) = error_dialogs rest"

definition admin_locked :: AuthController where
  "admin_locked =
     snd (logins example_hash ''admin''
            [(10, ''sid-a'', ''guess1'', False), (20, ''sid-b'', ''guess2'', False),
             (30, ''sid-c'', ''guess3'', False)] started)"

text \<open>An update that touches no field, and one that sets the role only.\<close>

definition no_changes :: user_data where
  "no_changes =
     \<lparr>in_username = None, in_email = None, in_password = None, in_role = None,
      in_is_active = None\<rparr>"

definition role_change :: "string \<Rightarrow> user_data" where
  "role_change r = no_changes\<lparr>in_role := Some r\<rparr>"

text \<open>The administrator, logged in, fails three logins under his own name.\<close>

definition admin_locked_in_session :: AuthController where
  "admin_locked_in_session =
     snd (logins example_hash ''admin''
            [(10, ''sid-a'', ''guess1'', False), (20, ''sid-b'', ''guess2'', False),
             (30, ''sid-c'', ''guess3'', False)] admin_logged_in)"

text \<open>The administrator creates the user bob and deletes him again.\<close>

definition bob_data :: user_data where
  "bob_data =
     \<lparr>in_username = Some ''bob'', in_email = Some ''bob@example.org'',
      in_password = Some ''Passw0rd'', in_role = Some ''assistant'', in_is_active = None\<rparr>"

definition bob_created :: AuthController where
  "bob_created =
     run example_library [CreateUser 5 ''20240101000000'' ''0badc0de'' ''77aa'' bob_data]
       admin_logged_in"

definition bob_deleted :: AuthController where
  "bob_deleted =
     run example_library [DeleteUser 6 ''user_20240101000000_0badc0de''] bob_created"

definition bob_again_data :: user_data where
  "bob_again_data = bob_data\<lparr>in_email := Some ''robert@example.org''\<rparr>"

text \<open>The administrator, logged in, sets his own role to viewer.\<close>

definition admin_demoted :: AuthController where
  "admin_demoted =
     run example_library [UpdateUser 5 ''admin_001'' (role_change ''viewer'')] admin_logged_in"

section \<open>Well-formed states\<close>

text \<open>How the dictionary of sessions and the store of session objects agree: the keys
  are distinct, no object is registered twice, and every registered address holds an
  object whose id is its key and whose status is \<open>ACTIVE\<close>.\<close>

definition sessions_ok :: "Session list \<Rightarrow> (string \<times> nat) list \<Rightarrow> bool" where
  "sessions_ok h m \<longleftrightarrow>
     distinct (map fst m) \<and> distinct (map snd m)
     \<and> list_all (\<lambda>(k, a). a < length h \<and> s_session_id (h ! a) = k \<and> s_status (h ! a) = ACTIVE) m"

text \<open>Every registered user address holds an object.\<close>

definition users_ok :: "User list \<Rightarrow> (string \<times> nat) list \<Rightarrow> bool" where
  "users_ok h m \<longleftrightarrow> list_all (\<lambda>(k, a). a < length h) m"

text \<open>The current user and the current session are set together, refer to objects, the
  session is one of the user, and a current session whose status is \<open>ACTIVE\<close> is the
  one registered under its id.\<close>

definition current_ok :: "User list \<Rightarrow> Session list \<Rightarrow> (string \<times> nat) list \<Rightarrow> nat option \<Rightarrow> nat option \<Rightarrow> bool" where
  "current_ok uh sh m cu cs \<longleftrightarrow>
     (case cu of
        None \<Rightarrow> cs = None
      | Some ua \<Rightarrow>
          ua < length uh \<and>
          (case cs of
             None \<Rightarrow> False
           | Some sa \<Rightarrow>
               sa < length sh \<and> s_user_id (sh ! sa) = u_id (uh ! ua)
               \<and> (s_status (sh ! sa) \<noteq> ACTIVE \<or> map_of m (s_session_id (sh ! sa)) = Some sa)))"

definition wf :: "AuthController \<Rightarrow> bool" where
  "wf s \<longleftrightarrow>
     sessions_ok (session_heap s) (sessions s)
     \<and> users_ok (user_heap s) (users s)
     \<and> current_ok (user_heap s) (session_heap s) (sessions s) (current_user s) (current_session s)"

text \<open>A session object that has been terminated and is not the current session.\<close>

definition terminated :: "nat \<Rightarrow> AuthController \<Rightarrow> bool" where
  "terminated a s \<longleftrightarrow>
     a < length (session_heap s) \<and> s_status (session_heap s ! a) = TERMINATED
     \<and> current_session s \<noteq> Some a"

section \<open>Basic facts about the state\<close>

text \<open>What emitting a signal and writing an object leave unchanged.\<close>

lemma emit_simps [simp]:
  "user_heap (emit x s) = user_heap s"
  "session_heap (emit x s) = session_heap s"
  "users (emit x s) = users s"
  "sessions (emit x s) = sessions s"
  "current_user (emit x s) = current_user s"
  "current_session (emit x s) = current_session s"
  "initialized (emit x s) = initialized s"
  "session_timer (emit x s) = session_timer s"
  "jwt_secret (emit x s) = jwt_secret s"
  "max_login_attempts (emit x s) = max_login_attempts s"
  "lockout_duration_minutes (emit x s) = lockout_duration_minutes s"
  "session_timeout_hours (emit x s) = session_timeout_hours s"
  "password_min_length (emit x s) = password_min_length s"
  "signals (emit x s) = signals s @ [x]"
  by (simp_all add: emit_def)

lemma emit_error_simps [simp]:
  "user_heap (emit_error t m s) = user_heap s"
  "session_heap (emit_error t m s) = session_heap s"
  "users (emit_error t m s) = users s"
  "sessions (emit_error t m s) = sessions s"
  "current_user (emit_error t m s) = current_user s"
  "current_session (emit_error t m s) = current_session s"
  "initialized (emit_error t m s) = initialized s"
  "session_timer (emit_error t m s) = session_timer s"
  "jwt_secret (emit_error t m s) = jwt_secret s"
  "max_login_attempts (emit_error t m s) = max_login_attempts s"
  "lockout_duration_minutes (emit_error t m s) = lockout_duration_minutes s"
  "session_timeout_hours (emit_error t m s) = session_timeout_hours s"
  "password_min_length (emit_error t m s) = password_min_length s"
  "signals (emit_error t m s) =
     signals s @ [Log LOG_ERROR (Lit t # Lit '': '' # m), error_occurred t m]"
  by (simp_all add: emit_error_def)

lemma emit_success_simps [simp]:
  "user_heap (emit_success t m s) = user_heap s"
  "session_heap (emit_success t m s) = session_heap s"
  "users (emit_success t m s) = users s"
  "sessions (emit_success t m s) = sessions s"
  "current_user (emit_success t m s) = current_user s"
  "current_session (emit_success t m s) = current_session s"
  "initialized (emit_success t m s) = initialized s"
  "session_timer (emit_success t m s) = session_timer s"
  "jwt_secret (emit_success t m s) = jwt_secret s"
  "max_login_attempts (emit_success t m s) = max_login_attempts s"
  "lockout_duration_minutes (emit_success t m s) = lockout_duration_minutes s"
  "session_timeout_hours (emit_success t m s) = session_timeout_hours s"
  "password_min_length (emit_success t m s) = password_min_length s"
  "signals (emit_success t m s) =
     signals s @ [Log LOG_INFO (Lit t # Lit '': '' # m), success_occurred t m]"
  by (simp_all add: emit_success_def)

lemma emit_data_changed_simps [simp]:
  "user_heap (emit_data_changed t m s) = user_heap s"
  "session_heap (emit_data_changed t m s) = session_heap s"
  "users (emit_data_changed t m s) = users s"
  "sessions (emit_data_changed t m s) = sessions s"
  "current_user (emit_data_changed t m s) = current_user s"
  "current_session (emit_data_changed t m s) = current_session s"
  "initialized (emit_data_changed t m s) = initialized s"
  "session_timer (emit_data_changed t m s) = session_timer s"
  "jwt_secret (emit_data_changed t m s) = jwt_secret s"
  "max_login_attempts (emit_data_changed t m s) = max_login_attempts s"
  "lockout_duration_minutes (emit_data_changed t m s) = lockout_duration_minutes s"
  "session_timeout_hours (emit_data_changed t m s) = session_timeout_hours s"
  "password_min_length (emit_data_changed t m s) = password_min_length s"
  "signals (emit_data_changed t m s) =
     signals s @ [Log LOG_DEBUG [Lit ''Data changed: '', Lit t], data_changed t m]"
  by (simp_all add: emit_data_changed_def)

lemma set_user_simps [simp]:
  "user_heap (set_user a u s) = (user_heap s)[a := u]"
  "session_heap (set_user a u s) = session_heap s"
  "users (set_user a u s) = users s"
  "sessions (set_user a u s) = sessions s"
  "current_user (set_user a u s) = current_user s"
  "current_session (set_user a u s) = current_session s"
  "initialized (set_user a u s) = initialized s"
  "session_timer (set_user a u s) = session_timer s"
  "jwt_secret (set_user a u s) = jwt_secret s"
  "max_login_attempts (set_user a u s) = max_login_attempts s"
  "lockout_duration_minutes (set_user a u s) = lockout_duration_minutes s"
  "session_timeout_hours (set_user a u s) = session_timeout_hours s"
  "password_min_length (set_user a u s) = password_min_length s"
  "signals (set_user a u s) = signals s"
  by (simp_all add: set_user_def)

lemma set_session_simps [simp]:
  "user_heap (set_session a u s) = user_heap s"
  "session_heap (set_session a u s) = (session_heap s)[a := u]"
  "users (set_session a u s) = users s"
  "sessions (set_session a u s) = sessions s"
  "current_user (set_session a u s) = current_user s"
  "current_session (set_session a u s) = current_session s"
  "initialized (set_session a u s) = initialized s"
  "session_timer (set_session a u s) = session_timer s"
  "jwt_secret (set_session a u s) = jwt_secret s"
  "max_login_attempts (set_session a u s) = max_login_attempts s"
  "lockout_duration_minutes (set_session a u s) = lockout_duration_minutes s"
  "session_timeout_hours (set_session a u s) = session_timeout_hours s"
  "password_min_length (set_session a u s) = password_min_length s"
  "signals (set_session a u s) = signals s"
  by (simp_all add: set_session_def)

text \<open>The example states, written out.\<close>

lemmas login_eval =
  login_def accepted_login_data_def validate_login_data_def validate_required_def
  validate_length_def add_error_def sanitize_input_def strip_def isspace_def is_control_def
  find_user_by_username_or_email_def is_locked_def verify_password_def hash_password_def
  create_session_def new_Session_def timedelta_hours_def timedelta_minutes_def to_dict_def
  example_hash_def Let_def

lemmas emit_eval = emit_error_def emit_success_def emit_data_changed_def emit_def set_user_def
  set_session_def

lemma started_eq:
  "started =
     \<lparr>user_heap =
        [\<lparr>u_id = ''admin_001'', u_username = ''admin'', u_email = ''admin@pharmacy.local'',
          u_role = ADMIN, u_password_hash = ''5a17$admin123'', u_salt = ''5a17'',
          u_is_active = True, u_created_at = 0, u_last_login = None,
          u_failed_login_attempts = 0, u_locked_until = None\<rparr>],
      session_heap = [], users = [(''admin_001'', 0)], sessions = [],
      current_user = None, current_session = None, initialized = True,
      session_timer = True, jwt_secret = Some ''secret'', max_login_attempts = 3,
      lockout_duration_minutes = 30, session_timeout_hours = 8, password_min_length = 8,
      signals =
        [Log LOG_INFO [Lit ''Created default admin user''],
         Log LOG_INFO [Lit ''AuthController initialized successfully''],
         Log LOG_INFO [Lit ''AuthController initialized successfully'']]\<rparr>"
  by (simp add: started_def example_library_def example_settings_def initialize_def
      do_initialize_def load_users_def AuthController_init_def create_default_admin_def
      hash_password_def example_hash_def emit_def)

lemma admin_logged_in_eq:
  "admin_logged_in =
     \<lparr>user_heap =
        [\<lparr>u_id = ''admin_001'', u_username = ''admin'', u_email = ''admin@pharmacy.local'',
          u_role = ADMIN, u_password_hash = ''5a17$admin123'', u_salt = ''5a17'',
          u_is_active = True, u_created_at = 0, u_last_login = Some 1,
          u_failed_login_attempts = 0, u_locked_until = None\<rparr>],
      session_heap =
        [\<lparr>s_session_id = ''sid-1'', s_user_id = ''admin_001'', s_username = ''admin'',
          s_role = ADMIN, s_created_at = 1, s_expires_at = 28800000001, s_last_activity = 1,
          s_ip_address = None, s_user_agent = None, s_status = ACTIVE\<rparr>],
      users = [(''admin_001'', 0)], sessions = [(''sid-1'', 0)],
      current_user = Some 0, current_session = Some 0, initialized = True,
      session_timer = True, jwt_secret = Some ''secret'', max_login_attempts = 3,
      lockout_duration_minutes = 30, session_timeout_hours = 8, password_min_length = 8,
      signals =
        [Log LOG_INFO [Lit ''Created default admin user''],
         Log LOG_INFO [Lit ''AuthController initialized successfully''],
         Log LOG_INFO [Lit ''AuthController initialized successfully''],
         Log LOG_INFO [Lit ''Login Successful'', Lit '': '', Lit ''Welcome back, '',
                       Lit ''admin'', Lit ''!''],
         success_occurred ''Login Successful'' [Lit ''Welcome back, '', Lit ''admin'', Lit ''!''],
         user_logged_in
           \<lparr>ud_id = ''admin_001'', ud_username = ''admin'', ud_email = ''admin@pharmacy.local'',
            ud_role = ''admin'', ud_is_active = True, ud_created_at = 0,
            ud_last_login = Some 1, ud_failed_login_attempts = 0, ud_is_locked = False\<rparr>,
         Log LOG_DEBUG [Lit ''Data changed: '', Lit ''user_logged_in''],
         data_changed ''user_logged_in''
           [(''user_id'', ''admin_001''), (''username'', ''admin''), (''role'', ''admin'')],
         Log LOG_INFO [Lit ''User '', Lit ''admin'', Lit '' logged in successfully'']]\<rparr>"
  by (simp add: admin_logged_in_def example_library_def started_eq login_eval emit_eval)

section \<open>Permissions of the roles\<close>

text \<open>
  C8. For every permission \<open>p\<close> of the enumeration, a user whose role is \<open>ADMIN\<close> has
  \<open>p\<close>; a user whose role is \<open>VIEWER\<close> has \<open>p\<close> only when \<open>p\<close> is one of the three
  read permissions (client read, diet read, report view), and has each of those.
\<close>

theorem admin_holds_all_viewer_reads_only:
  "(u_role u = ADMIN \<longrightarrow> user_has_permission u p) \<and>
   (u_role u = VIEWER \<longrightarrow>
      (user_has_permission u p \<longleftrightarrow> p \<in> {CLIENT_READ, DIET_READ, REPORT_VIEW}))"
  by (cases p) (simp_all add: user_has_permission_def get_permissions_def)

theorem admin_holds_all_viewer_reads_only_witness:
  "u_role (create_default_admin example_hash 0 ''5a17'') = ADMIN
   \<and> user_has_permission (create_default_admin example_hash 0 ''5a17'') AUDIT_VIEW
   \<and> u_role example_viewer = VIEWER
   \<and> user_has_permission example_viewer REPORT_VIEW
   \<and> \<not> user_has_permission example_viewer REPORT_GENERATE"
  using admin_holds_all_viewer_reads_only [of "create_default_admin example_hash 0 ''5a17''" AUDIT_VIEW]
    admin_holds_all_viewer_reads_only [of example_viewer REPORT_VIEW]
    admin_holds_all_viewer_reads_only [of example_viewer REPORT_GENERATE]
  by (simp add: create_default_admin_def example_viewer_def)

section \<open>Deleting one's own account\<close>

text \<open>
  C10. When the id passed to \<open>delete_user\<close> is the id of the current user, the call
  returns \<open>False\<close> and writes nothing but the trace: the objects (so the \<open>is_active\<close>
  flag of the target), the dictionary of users, the dictionary of sessions and the
  current user and session are as before.
\<close>

theorem delete_user_refuses_own_account:
  assumes "current_user s = Some ca" and "u_id (user_heap s ! ca) = user_id"
  shows "fst (delete_user now user_id s) = False
         \<and> user_heap (snd (delete_user now user_id s)) = user_heap s
         \<and> session_heap (snd (delete_user now user_id s)) = session_heap s
         \<and> users (snd (delete_user now user_id s)) = users s
         \<and> sessions (snd (delete_user now user_id s)) = sessions s
         \<and> current_user (snd (delete_user now user_id s)) = current_user s
         \<and> current_session (snd (delete_user now user_id s)) = current_session s"
  using assms by (simp add: delete_user_def split: option.split)

theorem delete_user_refuses_own_account_witness:
  "current_user admin_logged_in = Some 0
   \<and> u_id (user_heap admin_logged_in ! 0) = ''admin_001''
   \<and> has_permission 5 USER_MANAGE admin_logged_in
   \<and> fst (delete_user 5 ''admin_001'' admin_logged_in) = False
   \<and> u_is_active (user_heap (snd (delete_user 5 ''admin_001'' admin_logged_in)) ! 0)
   \<and> sessions (snd (delete_user 5 ''admin_001'' admin_logged_in)) = [(''sid-1'', 0)]"
proof -
  have h1: "current_user admin_logged_in = Some 0"
    and h2: "u_id (user_heap admin_logged_in ! 0) = ''admin_001''"
    and h3: "has_permission 5 USER_MANAGE admin_logged_in"
    and h4: "u_is_active (user_heap admin_logged_in ! 0)"
    and h5: "sessions admin_logged_in = [(''sid-1'', 0)]"
    by (simp_all add: admin_logged_in_eq has_permission_def is_valid_def
        user_has_permission_def get_permissions_def)
  from delete_user_refuses_own_account [OF h1 h2, of 5] h1 h2 h3 h4 h5
  show ?thesis by simp
qed

section \<open>Verifying a bearer token\<close>

text \<open>
  C4, as the code has it. For every token, \<open>verify_jwt_token\<close> returns the payload
  exactly when decoding yields one; when decoding raises, for an expired token as for an
  invalid one, it returns \<open>None\<close> (it does not raise, and the value it returns does not
  say which of the two happened). The two are told apart in the log only: the warning
  \<^verbatim>\<open>JWT token has expired\<close> against the warning \<^verbatim>\<open>Invalid JWT token\<close>. The order of
  the signature and expiry checks is that of the decoder, a library function.
\<close>

theorem verify_jwt_token_returns_payload_or_none:
  "(fst (verify_jwt_token decode token s) = Some payload
      \<longleftrightarrow> decode token (jwt_secret s) = Decoded payload)
   \<and> (decode token (jwt_secret s) = ExpiredSignatureError \<longrightarrow>
        verify_jwt_token decode token s
          = (None, emit (Log LOG_WARNING [Lit ''JWT token has expired'']) s))
   \<and> (decode token (jwt_secret s) = InvalidTokenError \<longrightarrow>
        verify_jwt_token decode token s
          = (None, emit (Log LOG_WARNING [Lit ''Invalid JWT token'']) s))"
  by (simp add: verify_jwt_token_def split: jwt_decoded.split)

theorem verify_jwt_token_returns_payload_or_none_witness:
  "example_decode ''expired'' (jwt_secret started) = ExpiredSignatureError
   \<and> verify_jwt_token example_decode ''expired'' started
        = (None, emit (Log LOG_WARNING [Lit ''JWT token has expired'']) started)
   \<and> example_decode ''tampered'' (jwt_secret started) = InvalidTokenError
   \<and> verify_jwt_token example_decode ''tampered'' started
        = (None, emit (Log LOG_WARNING [Lit ''Invalid JWT token'']) started)
   \<and> fst (verify_jwt_token example_decode ''good'' started)
        = Some \<lparr>jp_user_id = ''admin_001'', jp_username = ''admin'', jp_role = ''admin'',
                 jp_exp = 86400000000, jp_iat = 0\<rparr>"
  using verify_jwt_token_returns_payload_or_none [of example_decode "''expired''" started]
    verify_jwt_token_returns_payload_or_none [of example_decode "''tampered''" started]
    verify_jwt_token_returns_payload_or_none [of example_decode "''good''" started
      "\<lparr>jp_user_id = ''admin_001'', jp_username = ''admin'', jp_role = ''admin'',
        jp_exp = 86400000000, jp_iat = 0\<rparr>"]
  by (simp add: example_decode_def)

text \<open>The claim as the specification words it fails: the value returned for an expired
  token is the value returned for a tampered one.\<close>

theorem verify_jwt_token_failure_is_untyped:
  "example_decode ''expired'' (jwt_secret started) = ExpiredSignatureError
   \<and> example_decode ''tampered'' (jwt_secret started) = InvalidTokenError
   \<and> fst (verify_jwt_token example_decode ''expired'' started)
       = fst (verify_jwt_token example_decode ''tampered'' started)"
  by (simp add: verify_jwt_token_def example_decode_def)

section \<open>Login\<close>

text \<open>The branches of \<open>login\<close>, one lemma each.\<close>

lemma nth_list_update_field:
  "f u' = f (h ! a) \<Longrightarrow> f (h[a := u'] ! b) = f (h ! b)"
  by (cases "a < length h") (auto simp: nth_list_update list_update_beyond not_less)

lemma find_user_in_update:
  "u_username u' = u_username (h ! a) \<Longrightarrow> u_email u' = u_email (h ! a) \<Longrightarrow>
   find_user_in (h[a := u']) m identifier = find_user_in h m identifier"
proof (induction m)
  case Nil
  then show ?case by simp
next
  case (Cons p m)
  obtain k b where p: "p = (k, b)" by (cases p)
  from Cons.prems have "u_username (h[a := u'] ! b) = u_username (h ! b)"
    and "u_email (h[a := u'] ! b) = u_email (h ! b)"
    by (simp_all add: nth_list_update_field)
  with Cons p show ?case by simp
qed

lemma login_not_accepted:
  "\<not> accepted_login_data username password \<Longrightarrow>
   login H now sid username password r s =
     (False, emit_error ''Login Error''
               (Lit ''Invalid login data: ''
                # join [Lit ''; ''] (map vm_message (lv_messages (validate_login_data username password)))) s)"
  by (simp add: login_def accepted_login_data_def)

lemma login_unknown_user:
  assumes "accepted_login_data username password"
    and "find_user_by_username_or_email s username = None"
  shows "login H now sid username password r s =
     (False, emit_error ''Login Failed'' [Lit ''Invalid username or password'']
               (emit (login_failed username ''User not found'') s))"
  using assms by (simp add: login_def accepted_login_data_def)

lemma login_inactive:
  assumes "accepted_login_data username password"
    and "find_user_by_username_or_email s username = Some ua"
    and "\<not> u_is_active (user_heap s ! ua)"
  shows "login H now sid username password r s =
     (False, emit_error ''Login Failed'' [Lit ''Account is inactive'']
               (emit (login_failed username ''Account inactive'') s))"
  using assms by (simp add: login_def accepted_login_data_def)

lemma login_locked:
  assumes "accepted_login_data username password"
    and "find_user_by_username_or_email s username = Some ua"
    and "u_is_active (user_heap s ! ua)"
    and "is_locked now (user_heap s ! ua)"
  shows "login H now sid username password r s =
     (False, emit_error ''Account Locked''
               [Lit ''Account is locked until '', TimeArg (u_locked_until (user_heap s ! ua))]
               (emit (account_locked username) s))"
  using assms by (simp add: login_def accepted_login_data_def)

lemma login_wrong_password:
  assumes "accepted_login_data username password"
    and "find_user_by_username_or_email s username = Some ua"
    and "u_is_active (user_heap s ! ua)"
    and "\<not> is_locked now (user_heap s ! ua)"
    and "\<not> verify_password H password (u_password_hash (user_heap s ! ua)) (u_salt (user_heap s ! ua))"
  shows "login H now sid username password r s =
     (False,
      emit (login_failed username ''Invalid password'')
        (if max_login_attempts s \<le> u_failed_login_attempts (user_heap s ! ua) + 1 then
           emit_error ''Account Locked''
             [Lit ''Account locked due to too many failed attempts. '',
              Lit ''Try again in '', IntArg (lockout_duration_minutes s), Lit '' minutes.'']
             (emit (account_locked username)
                (set_user ua
                   ((user_heap s ! ua)
                      \<lparr>u_failed_login_attempts := u_failed_login_attempts (user_heap s ! ua) + 1,
                       u_locked_until := Some (now + timedelta_minutes (lockout_duration_minutes s))\<rparr>) s))
         else
           emit_error ''Login Failed''
             [Lit ''Invalid password. '',
              IntArg (max_login_attempts s - (u_failed_login_attempts (user_heap s ! ua) + 1)),
              Lit '' attempts remaining.'']
             (set_user ua
                ((user_heap s ! ua)
                   \<lparr>u_failed_login_attempts := u_failed_login_attempts (user_heap s ! ua) + 1\<rparr>) s)))"
  using assms by (simp add: login_def accepted_login_data_def Let_def)

lemma login_success:
  assumes "accepted_login_data username password"
    and "find_user_by_username_or_email s username = Some ua"
    and "u_is_active (user_heap s ! ua)"
    and "\<not> is_locked now (user_heap s ! ua)"
    and "verify_password H password (u_password_hash (user_heap s ! ua)) (u_salt (user_heap s ! ua))"
  shows "fst (login H now sid username password r s) = True"
    and "user_heap (snd (login H now sid username password r s)) =
           (user_heap s)[ua := (user_heap s ! ua)\<lparr>u_failed_login_attempts := 0,
                                                   u_locked_until := None, u_last_login := Some now\<rparr>]"
    and "current_user (snd (login H now sid username password r s)) = Some ua"
    and "current_session (snd (login H now sid username password r s)) = Some (length (session_heap s))"
  using assms by (simp_all add: login_def accepted_login_data_def Let_def create_session_def split: prod.split)

lemma error_dialogs_append:
  "error_dialogs (xs @ ys) = error_dialogs xs @ error_dialogs ys"
  by (induction xs rule: error_dialogs.induct) simp_all

lemma logins_denied_while_locked:
  assumes "find_user_by_username_or_email s username = Some ua"
    and "u_is_active (user_heap s ! ua)"
    and "u_locked_until (user_heap s ! ua) = Some l"
    and "list_all (\<lambda>(t, sid, p, r). t < l \<and> accepted_login_data username p) tries"
  shows "fst (logins H username tries s) = replicate (length tries) False
         \<and> user_heap (snd (logins H username tries s)) = user_heap s
         \<and> users (snd (logins H username tries s)) = users s
         \<and> session_heap (snd (logins H username tries s)) = session_heap s
         \<and> sessions (snd (logins H username tries s)) = sessions s
         \<and> current_user (snd (logins H username tries s)) = current_user s
         \<and> current_session (snd (logins H username tries s)) = current_session s
         \<and> error_dialogs (signals (snd (logins H username tries s))) =
             error_dialogs (signals s)
             @ replicate (length tries)
                 (''Account Locked'', [Lit ''Account is locked until '', TimeArg (Some l)])"
  using assms
proof (induction tries arbitrary: s)
  case Nil
  then show ?case by simp
next
  case (Cons x tries)
  obtain t sid p r where x: "x = (t, sid, p, r)" by (cases x)
  from Cons.prems(4) x have t: "t < l" and acc: "accepted_login_data username p"
    and rest: "list_all (\<lambda>(t, sid, p, r). t < l \<and> accepted_login_data username p) tries"
    by simp_all
  let ?s1 = "emit_error ''Account Locked''
               [Lit ''Account is locked until '', TimeArg (Some l)]
               (emit (account_locked username) s)"
  from Cons.prems(3) t have "is_locked t (user_heap s ! ua)"
    by (simp add: is_locked_def)
  with acc Cons.prems(1,2,3) have step: "login H t sid username p r s = (False, ?s1)"
    by (simp add: login_locked)
  have "find_user_by_username_or_email ?s1 username = Some ua"
    using Cons.prems(1) by (simp add: find_user_by_username_or_email_def)
  moreover have "u_is_active (user_heap ?s1 ! ua)" "u_locked_until (user_heap ?s1 ! ua) = Some l"
    using Cons.prems(2,3) by simp_all
  ultimately have IH:
    "fst (logins H username tries ?s1) = replicate (length tries) False
         \<and> user_heap (snd (logins H username tries ?s1)) = user_heap ?s1
         \<and> users (snd (logins H username tries ?s1)) = users ?s1
         \<and> session_heap (snd (logins H username tries ?s1)) = session_heap ?s1
         \<and> sessions (snd (logins H username tries ?s1)) = sessions ?s1
         \<and> current_user (snd (logins H username tries ?s1)) = current_user ?s1
         \<and> current_session (snd (logins H username tries ?s1)) = current_session ?s1
         \<and> error_dialogs (signals (snd (logins H username tries ?s1))) =
             error_dialogs (signals ?s1)
             @ replicate (length tries)
                 (''Account Locked'', [Lit ''Account is locked until '', TimeArg (Some l)])"
    using rest by (rule Cons.IH)
  have ed: "error_dialogs (signals ?s1) =
              error_dialogs (signals s) @ [(''Account Locked'', [Lit ''Account is locked until '', TimeArg (Some l)])]"
    by (simp add: error_dialogs_append)
  show ?case
    using IH ed by (simp add: x step case_prod_beta Let_def replicate_app_Cons_same)
qed

lemma login_wrong_password_effect:
  assumes "accepted_login_data username password"
    and "find_user_by_username_or_email s username = Some ua"
    and "u_is_active (user_heap s ! ua)"
    and "\<not> is_locked now (user_heap s ! ua)"
    and "\<not> verify_password H password (u_password_hash (user_heap s ! ua)) (u_salt (user_heap s ! ua))"
  shows "fst (login H now sid username password r s) = False"
    and "user_heap (snd (login H now sid username password r s)) =
           (user_heap s)[ua := (user_heap s ! ua)
              \<lparr>u_failed_login_attempts := u_failed_login_attempts (user_heap s ! ua) + 1,
               u_locked_until :=
                 (if max_login_attempts s \<le> u_failed_login_attempts (user_heap s ! ua) + 1
                  then Some (now + timedelta_minutes (lockout_duration_minutes s))
                  else u_locked_until (user_heap s ! ua))\<rparr>]"
    and "users (snd (login H now sid username password r s)) = users s"
    and "max_login_attempts (snd (login H now sid username password r s)) = max_login_attempts s"
    and "lockout_duration_minutes (snd (login H now sid username password r s)) = lockout_duration_minutes s"
    and "find_user_by_username_or_email (snd (login H now sid username password r s)) username = Some ua"
proof -
  note eq = login_wrong_password [OF assms, of sid r]
  show "fst (login H now sid username password r s) = False"
    by (simp add: eq)
  show "user_heap (snd (login H now sid username password r s)) =
           (user_heap s)[ua := (user_heap s ! ua)
              \<lparr>u_failed_login_attempts := u_failed_login_attempts (user_heap s ! ua) + 1,
               u_locked_until :=
                 (if max_login_attempts s \<le> u_failed_login_attempts (user_heap s ! ua) + 1
                  then Some (now + timedelta_minutes (lockout_duration_minutes s))
                  else u_locked_until (user_heap s ! ua))\<rparr>]"
    by (simp add: eq)
  show "users (snd (login H now sid username password r s)) = users s"
    by (simp add: eq)
  show "max_login_attempts (snd (login H now sid username password r s)) = max_login_attempts s"
    by (simp add: eq)
  show "lockout_duration_minutes (snd (login H now sid username password r s)) = lockout_duration_minutes s"
    by (simp add: eq)
  show "find_user_by_username_or_email (snd (login H now sid username password r s)) username = Some ua"
    using assms(2) by (simp add: eq find_user_by_username_or_email_def find_user_in_update)
qed

subsection \<open>The lockout threshold\<close>

text \<open>
  C2. Let the threshold \<open>max_login_attempts\<close> be 3, and let a user that is found under
  \<open>username\<close>, active, with no failed attempt counted and no lock, fail three logins in
  a row with wrong passwords, the third at time \<open>t3\<close>. Then all three attempts return
  \<open>False\<close>, the count is 3 and the user is locked until \<open>t3\<close> plus the lockout duration.
  Every further attempt made before that time, with whatever password (the correct one
  included), returns \<open>False\<close> with the dialog \<^verbatim>\<open>Account Locked\<close>. A login with the
  correct password made at that time or later succeeds and leaves the count at 0.
\<close>

theorem lockout_after_three_wrong_passwords:
  assumes threshold: "max_login_attempts s0 = 3"
    and found: "find_user_by_username_or_email s0 username = Some ua"
    and alloc: "ua < length (user_heap s0)"
    and active: "u_is_active (user_heap s0 ! ua)"
    and clean: "u_failed_login_attempts (user_heap s0 ! ua) = 0"
               "u_locked_until (user_heap s0 ! ua) = None"
    and wrong: "\<forall>p \<in> {w1, w2, w3}. accepted_login_data username p
                  \<and> \<not> verify_password H p (u_password_hash (user_heap s0 ! ua)) (u_salt (user_heap s0 ! ua))"
    and s3: "s3 = snd (logins H username [(t1, sid1, w1, r1), (t2, sid2, w2, r2), (t3, sid3, w3, r3)] s0)"
    and until: "locked_until = t3 + timedelta_minutes (lockout_duration_minutes s0)"
    and early: "list_all (\<lambda>(t, sid, p, r). t < locked_until \<and> accepted_login_data username p) tries"
    and s4: "s4 = snd (logins H username tries s3)"
    and late: "locked_until \<le> t5"
    and right: "accepted_login_data username password"
               "verify_password H password (u_password_hash (user_heap s0 ! ua)) (u_salt (user_heap s0 ! ua))"
  shows "fst (logins H username [(t1, sid1, w1, r1), (t2, sid2, w2, r2), (t3, sid3, w3, r3)] s0)
           = [False, False, False]
         \<and> u_failed_login_attempts (user_heap s3 ! ua) = 3
         \<and> u_locked_until (user_heap s3 ! ua) = Some locked_until
         \<and> fst (logins H username tries s3) = replicate (length tries) False
         \<and> error_dialogs (signals s4) =
             error_dialogs (signals s3)
             @ replicate (length tries)
                 (''Account Locked'', [Lit ''Account is locked until '', TimeArg (Some locked_until)])
         \<and> fst (login H t5 sid5 username password r5 s4) = True
         \<and> u_failed_login_attempts (user_heap (snd (login H t5 sid5 username password r5 s4)) ! ua) = 0"
proof -
  let ?u0 = "user_heap s0 ! ua"
  define a1 where "a1 = login H t1 sid1 username w1 r1 s0"
  define a2 where "a2 = login H t2 sid2 username w2 r2 (snd a1)"
  define a3 where "a3 = login H t3 sid3 username w3 r3 (snd a2)"
  have run3: "logins H username [(t1, sid1, w1, r1), (t2, sid2, w2, r2), (t3, sid3, w3, r3)] s0
                = ([fst a1, fst a2, fst a3], snd a3)"
    by (simp add: a1_def a2_def a3_def case_prod_beta Let_def)
  from wrong have w: "accepted_login_data username w1" "accepted_login_data username w2"
      "accepted_login_data username w3"
      "\<not> verify_password H w1 (u_password_hash ?u0) (u_salt ?u0)"
      "\<not> verify_password H w2 (u_password_hash ?u0) (u_salt ?u0)"
      "\<not> verify_password H w3 (u_password_hash ?u0) (u_salt ?u0)"
    by simp_all
  \<comment> \<open>first attempt\<close>
  have nl0: "\<not> is_locked t1 ?u0" using clean by (simp add: is_locked_def)
  note e1 = login_wrong_password_effect [OF w(1) found active nl0 w(4), of sid1 r1, folded a1_def]
  have u1: "user_heap (snd a1) ! ua = ?u0\<lparr>u_failed_login_attempts := 1\<rparr>"
    using e1(2) alloc threshold clean by simp
  have nl1: "\<not> is_locked t2 (user_heap (snd a1) ! ua)"
    using clean by (simp add: u1 is_locked_def)
  have act1: "u_is_active (user_heap (snd a1) ! ua)" using active by (simp add: u1)
  have w2': "\<not> verify_password H w2 (u_password_hash (user_heap (snd a1) ! ua)) (u_salt (user_heap (snd a1) ! ua))"
    using w(5) by (simp add: u1)
  \<comment> \<open>second attempt\<close>
  note e2 = login_wrong_password_effect [OF w(2) e1(6) act1 nl1 w2', of sid2 r2, folded a2_def]
  have len1: "ua < length (user_heap (snd a1))" using alloc by (simp add: e1(2))
  have u2: "user_heap (snd a2) ! ua = ?u0\<lparr>u_failed_login_attempts := 2\<rparr>"
    using e2(2) len1 threshold clean by (simp add: u1 e1(4))
  have nl2: "\<not> is_locked t3 (user_heap (snd a2) ! ua)"
    using clean by (simp add: u2 is_locked_def)
  have act2: "u_is_active (user_heap (snd a2) ! ua)" using active by (simp add: u2)
  have w3': "\<not> verify_password H w3 (u_password_hash (user_heap (snd a2) ! ua)) (u_salt (user_heap (snd a2) ! ua))"
    using w(6) by (simp add: u2)
  \<comment> \<open>third attempt\<close>
  note e3 = login_wrong_password_effect [OF w(3) e2(6) act2 nl2 w3', of sid3 r3, folded a3_def]
  have len2: "ua < length (user_heap (snd a2))" using len1 by (simp add: e2(2))
  have u3: "user_heap (snd a3) ! ua =
              ?u0\<lparr>u_failed_login_attempts := 3, u_locked_until := Some locked_until\<rparr>"
    using e3(2) len2 threshold by (simp add: u2 e1(4) e2(4) e1(5) e2(5) until)
  have s3': "s3 = snd a3" unfolding s3 run3 by simp
  have first: "fst (logins H username [(t1, sid1, w1, r1), (t2, sid2, w2, r2), (t3, sid3, w3, r3)] s0)
                 = [False, False, False]"
    unfolding run3 by (simp add: e1(1) e2(1) e3(1))
  have found3: "find_user_by_username_or_email s3 username = Some ua"
    by (simp add: s3' e3(6))
  have act3: "u_is_active (user_heap s3 ! ua)" using active by (simp add: s3' u3)
  have lock3: "u_locked_until (user_heap s3 ! ua) = Some locked_until" by (simp add: s3' u3)
  note denied = logins_denied_while_locked [OF found3 act3 lock3 early, of H, folded s4]
  \<comment> \<open>after the lockout\<close>
  have found4: "find_user_by_username_or_email s4 username = Some ua"
    using found3 denied by (simp add: find_user_by_username_or_email_def)
  have u4: "user_heap s4 ! ua = ?u0\<lparr>u_failed_login_attempts := 3, u_locked_until := Some locked_until\<rparr>"
    using denied by (simp add: s3' u3)
  have act4: "u_is_active (user_heap s4 ! ua)" using active by (simp add: u4)
  have nl4: "\<not> is_locked t5 (user_heap s4 ! ua)" using late by (simp add: u4 is_locked_def)
  have r4: "verify_password H password (u_password_hash (user_heap s4 ! ua)) (u_salt (user_heap s4 ! ua))"
    using right(2) by (simp add: u4)
  note ok = login_success [OF right(1) found4 act4 nl4 r4, of sid5 r5]
  have len4: "ua < length (user_heap s4)"
    using denied len2 by (simp add: s3' e3(2))
  have "u_failed_login_attempts (user_heap (snd (login H t5 sid5 username password r5 s4)) ! ua) = 0"
    using len4 by (simp add: ok(2))
  with first denied ok(1) show ?thesis
    by (simp add: s3' u3)
qed

theorem lockout_after_three_wrong_passwords_witness:
  "max_login_attempts started = 3
   \<and> find_user_by_username_or_email started ''admin'' = Some 0
   \<and> u_is_active (user_heap started ! 0)
   \<and> u_failed_login_attempts (user_heap started ! 0) = 0
   \<and> u_locked_until (user_heap started ! 0) = None
   \<and> \<not> verify_password example_hash ''guess1'' (u_password_hash (user_heap started ! 0)) (u_salt (user_heap started ! 0))
   \<and> verify_password example_hash ''admin123'' (u_password_hash (user_heap started ! 0)) (u_salt (user_heap started ! 0))
   \<and> fst (logins example_hash ''admin''
             [(10, ''sid-a'', ''guess1'', False), (20, ''sid-b'', ''guess2'', False),
              (30, ''sid-c'', ''guess3'', False)] started) = [False, False, False]
   \<and> u_locked_until (user_heap admin_locked ! 0) = Some 1800000030
   \<and> fst (logins example_hash ''admin'' [(40, ''sid-d'', ''admin123'', False)] admin_locked) = [False]
   \<and> fst (login example_hash 1800000030 ''sid-e'' ''admin'' ''admin123'' False
             (snd (logins example_hash ''admin'' [(40, ''sid-d'', ''admin123'', False)] admin_locked)))
       = True
   \<and> u_failed_login_attempts
         (user_heap (snd (login example_hash 1800000030 ''sid-e'' ''admin'' ''admin123'' False
            (snd (logins example_hash ''admin'' [(40, ''sid-d'', ''admin123'', False)] admin_locked)))) ! 0)
       = 0"
proof -
  have h1: "max_login_attempts started = 3"
    and h2: "find_user_by_username_or_email started ''admin'' = Some 0"
    and h3: "0 < length (user_heap started)"
    and h4: "u_is_active (user_heap started ! 0)"
    and h5: "u_failed_login_attempts (user_heap started ! 0) = 0"
    and h6: "u_locked_until (user_heap started ! 0) = None"
    by (simp_all add: started_eq find_user_by_username_or_email_def)
  have h7: "\<forall>p \<in> {''guess1'', ''guess2'', ''guess3''}. accepted_login_data ''admin'' p
              \<and> \<not> verify_password example_hash p (u_password_hash (user_heap started ! 0))
                     (u_salt (user_heap started ! 0))"
    by (simp add: started_eq login_eval)
  have h8: "admin_locked = snd (logins example_hash ''admin''
             [(10, ''sid-a'', ''guess1'', False), (20, ''sid-b'', ''guess2'', False),
              (30, ''sid-c'', ''guess3'', False)] started)"
    by (simp only: admin_locked_def)
  have h9: "(1800000030 :: int) = 30 + timedelta_minutes (lockout_duration_minutes started)"
    by (simp add: started_eq timedelta_minutes_def)
  have h10: "list_all (\<lambda>(t, sid, p, r). t < (1800000030 :: int) \<and> accepted_login_data ''admin'' p)
               [(40 :: int, ''sid-d'', ''admin123'', False)]"
    by (simp add: login_eval)
  have h11: "(1800000030 :: int) \<le> 1800000030" by simp
  have h12: "accepted_login_data ''admin'' ''admin123''"
    and h13: "verify_password example_hash ''admin123'' (u_password_hash (user_heap started ! 0))
                (u_salt (user_heap started ! 0))"
    by (simp_all add: started_eq login_eval)
  from h7 have h14: "\<not> verify_password example_hash ''guess1'' (u_password_hash (user_heap started ! 0))
                (u_salt (user_heap started ! 0))"
    by simp
  from lockout_after_three_wrong_passwords [OF h1 h2 h3 h4 h5 h6 h7 h8 h9 h10 refl h11 h12 h13,
      of "''sid-e''" False] h1 h2 h4 h5 h6 h13 h14
  show ?thesis by simp
qed

subsection \<open>The message of a failed login\<close>

lemma str_int_2: "str_int 2 = ''2''"
  by (simp add: str_int_def digits_of.simps char_of_def bit_0)

text \<open>The claim C3 as the specification words it fails: on the started controller a
  login under an unknown name and a login under the administrator's name with a wrong
  password show different dialogs.\<close>

theorem login_failure_dialogs_differ:
  "find_user_by_username_or_email started ''nobody'' = None
   \<and> error_dialogs (signals (snd (login example_hash 10 ''sid-a'' ''nobody'' ''guess1'' False started)))
       = [(''Login Failed'', [Lit ''Invalid username or password''])]
   \<and> find_user_by_username_or_email started ''admin'' = Some 0
   \<and> error_dialogs (signals (snd (login example_hash 10 ''sid-a'' ''admin'' ''guess1'' False started)))
       = [(''Login Failed'', [Lit ''Invalid password. '', IntArg 2, Lit '' attempts remaining.''])]
   \<and> render (\<lambda>t. []) (\<lambda>a. []) [Lit ''Invalid username or password'']
       = ''Invalid username or password''
   \<and> render (\<lambda>t. []) (\<lambda>a. []) [Lit ''Invalid password. '', IntArg 2, Lit '' attempts remaining.'']
       = ''Invalid password. 2 attempts remaining.''"
  by (simp add: started_eq login_eval emit_eval render_def str_int_2)

text \<open>
  C3, as the code has it. For a login whose form data is accepted: when no user has the
  given name or e-mail, the call returns \<open>False\<close>, emits \<open>login_failed\<close> with the
  reason \<^verbatim>\<open>User not found\<close> and shows the dialog \<^verbatim>\<open>Login Failed: Invalid username or
  password\<close>, whatever the password; when the user exists, is active and not locked
  and the password is wrong, it returns \<open>False\<close>, shows the dialog \<^verbatim>\<open>Login Failed:
  Invalid password. N attempts remaining.\<close> (or, when the count reaches the threshold,
  \<^verbatim>\<open>Account Locked: Account locked due to too many failed attempts. Try again in M
  minutes.\<close>) and emits \<open>login_failed\<close> with the reason \<^verbatim>\<open>Invalid password\<close>. So the
  two causes are told apart in the dialog as well as in the signal.
\<close>

theorem login_failure_dialog_by_cause:
  assumes "accepted_login_data username password"
  shows "(find_user_by_username_or_email s username = None \<longrightarrow>
            fst (login H now sid username password r s) = False
            \<and> signals (snd (login H now sid username password r s)) =
                signals s
                @ [login_failed username ''User not found'',
                   Log LOG_ERROR [Lit ''Login Failed'', Lit '': '', Lit ''Invalid username or password''],
                   error_occurred ''Login Failed'' [Lit ''Invalid username or password'']])
         \<and> (\<forall>ua. find_user_by_username_or_email s username = Some ua
                \<and> u_is_active (user_heap s ! ua)
                \<and> \<not> is_locked now (user_heap s ! ua)
                \<and> \<not> verify_password H password (u_password_hash (user_heap s ! ua)) (u_salt (user_heap s ! ua))
              \<longrightarrow>
                fst (login H now sid username password r s) = False
                \<and> error_dialogs (signals (snd (login H now sid username password r s))) =
                    error_dialogs (signals s)
                    @ [if max_login_attempts s \<le> u_failed_login_attempts (user_heap s ! ua) + 1
                       then (''Account Locked'',
                             [Lit ''Account locked due to too many failed attempts. '',
                              Lit ''Try again in '', IntArg (lockout_duration_minutes s),
                              Lit '' minutes.''])
                       else (''Login Failed'',
                             [Lit ''Invalid password. '',
                              IntArg (max_login_attempts s - (u_failed_login_attempts (user_heap s ! ua) + 1)),
                              Lit '' attempts remaining.''])]
                \<and> last (signals (snd (login H now sid username password r s))) =
                    login_failed username ''Invalid password'')"
proof (intro conjI impI allI)
  assume "find_user_by_username_or_email s username = None"
  with assms have eq: "login H now sid username password r s =
     (False, emit_error ''Login Failed'' [Lit ''Invalid username or password'']
               (emit (login_failed username ''User not found'') s))"
    by (rule login_unknown_user)
  show "fst (login H now sid username password r s) = False" by (simp add: eq)
  show "signals (snd (login H now sid username password r s)) =
          signals s
          @ [login_failed username ''User not found'',
             Log LOG_ERROR [Lit ''Login Failed'', Lit '': '', Lit ''Invalid username or password''],
             error_occurred ''Login Failed'' [Lit ''Invalid username or password'']]"
    by (simp add: eq)
next
  fix ua
  assume h: "find_user_by_username_or_email s username = Some ua
                \<and> u_is_active (user_heap s ! ua)
                \<and> \<not> is_locked now (user_heap s ! ua)
                \<and> \<not> verify_password H password (u_password_hash (user_heap s ! ua)) (u_salt (user_heap s ! ua))"
  then have eq: "login H now sid username password r s = 
     (False,
      emit (login_failed username ''Invalid password'')
        (if max_login_attempts s \<le> u_failed_login_attempts (user_heap s ! ua) + 1 then
           emit_error ''Account Locked''
             [Lit ''Account locked due to too many failed attempts. '',
              Lit ''Try again in '', IntArg (lockout_duration_minutes s), Lit '' minutes.'']
             (emit (account_locked username)
                (set_user ua
                   ((user_heap s ! ua)
                      \<lparr>u_failed_login_attempts := u_failed_login_attempts (user_heap s ! ua) + 1,
                       u_locked_until := Some (now + timedelta_minutes (lockout_duration_minutes s))\<rparr>) s))
         else
           emit_error ''Login Failed''
             [Lit ''Invalid password. '',
              IntArg (max_login_attempts s - (u_failed_login_attempts (user_heap s ! ua) + 1)),
              Lit '' attempts remaining.'']
             (set_user ua
                ((user_heap s ! ua)
                   \<lparr>u_failed_login_attempts := u_failed_login_attempts (user_heap s ! ua) + 1\<rparr>) s)))"
    using assms by (simp add: login_wrong_password)
  show "fst (login H now sid username password r s) = False" by (simp add: eq)
  show "error_dialogs (signals (snd (login H now sid username password r s))) =
                    error_dialogs (signals s)
                    @ [if max_login_attempts s \<le> u_failed_login_attempts (user_heap s ! ua) + 1
                       then (''Account Locked'',
                             [Lit ''Account locked due to too many failed attempts. '',
                              Lit ''Try again in '', IntArg (lockout_duration_minutes s),
                              Lit '' minutes.''])
                       else (''Login Failed'',
                             [Lit ''Invalid password. '',
                              IntArg (max_login_attempts s - (u_failed_login_attempts (user_heap s ! ua) + 1)),
                              Lit '' attempts remaining.''])]"
    by (simp add: eq error_dialogs_append)
  show "last (signals (snd (login H now sid username password r s))) =
                    login_failed username ''Invalid password''"
    by (simp add: eq)
qed

theorem login_failure_dialog_by_cause_witness:
  "accepted_login_data ''nobody'' ''guess1''
   \<and> find_user_by_username_or_email started ''nobody'' = None
   \<and> signals (snd (login example_hash 10 ''sid-a'' ''nobody'' ''guess1'' False started)) =
       signals started
       @ [login_failed ''nobody'' ''User not found'',
          Log LOG_ERROR [Lit ''Login Failed'', Lit '': '', Lit ''Invalid username or password''],
          error_occurred ''Login Failed'' [Lit ''Invalid username or password'']]
   \<and> accepted_login_data ''admin'' ''guess1''
   \<and> find_user_by_username_or_email started ''admin'' = Some 0
   \<and> u_is_active (user_heap started ! 0)
   \<and> \<not> is_locked 10 (user_heap started ! 0)
   \<and> \<not> verify_password example_hash ''guess1'' (u_password_hash (user_heap started ! 0)) (u_salt (user_heap started ! 0))
   \<and> error_dialogs (signals (snd (login example_hash 10 ''sid-a'' ''admin'' ''guess1'' False started))) =
       error_dialogs (signals started)
       @ [(''Login Failed'', [Lit ''Invalid password. '', IntArg 2, Lit '' attempts remaining.''])]"
proof -
  have h1: "accepted_login_data ''nobody'' ''guess1''"
    and h2: "find_user_by_username_or_email started ''nobody'' = None"
    and h3: "accepted_login_data ''admin'' ''guess1''"
    and h4: "find_user_by_username_or_email started ''admin'' = Some 0"
    and h5: "u_is_active (user_heap started ! 0)"
    and h6: "\<not> is_locked 10 (user_heap started ! 0)"
    and h7: "\<not> verify_password example_hash ''guess1'' (u_password_hash (user_heap started ! 0)) (u_salt (user_heap started ! 0))"
    and h8: "max_login_attempts started = 3" "u_failed_login_attempts (user_heap started ! 0) = 0"
    by (simp_all add: started_eq login_eval)
  from login_failure_dialog_by_cause [OF h1, of started example_hash 10 "''sid-a''" False]
    login_failure_dialog_by_cause [OF h3, of started example_hash 10 "''sid-a''" False]
    h1 h2 h3 h4 h5 h6 h7 h8
  show ?thesis by simp
qed

subsection \<open>A lock that has run out\<close>

lemmas user_eval =
  update_user_def create_user_def delete_user_def has_permission_def is_valid_def
  user_has_permission_def get_permissions_def validate_user_data_def truthy_def str_of_def
  validate_password_def taken_by_other_def actor_name_def UserRole_of_def valid_roles_def
  username_pattern_def dollar_def is_alnum_def is_upper_def is_lower_def is_digit_def
  email_pattern_def validate_email_def lower_def lower_char_def special_chars_def
  no_changes_def role_change_def quoted_def

lemma admin_locked_facts:
  "find_user_by_username_or_email admin_locked ''admin'' = Some 0"
  "length (user_heap admin_locked) = 1"
  "u_is_active (user_heap admin_locked ! 0)"
  "u_locked_until (user_heap admin_locked ! 0) = Some 1800000030"
  "u_failed_login_attempts (user_heap admin_locked ! 0) = 3"
  "u_password_hash (user_heap admin_locked ! 0) = ''5a17$admin123''"
  "u_salt (user_heap admin_locked ! 0) = ''5a17''"
  "max_login_attempts admin_locked = 3"
  "lockout_duration_minutes admin_locked = 30"
  by (simp_all add: admin_locked_def started_eq login_eval emit_eval)

text \<open>
  C5, as the code has it. When the lock of a user lies in the past at the time of a
  login (\<open>locked_until = Some l\<close> with \<open>l \<le> now\<close>), the lock is ignored:
  \<open>is_locked\<close> is false and the attempt goes on to the password check. The evaluation
  itself writes nothing. The field is set to \<open>None\<close> only when the password is right
  (the login succeeds); when the password is wrong it keeps its past value, or is
  overwritten with a new lock time when the count reaches the threshold.
\<close>

theorem stale_lock_is_ignored_not_cleared:
  assumes "accepted_login_data username password"
    and "find_user_by_username_or_email s username = Some ua"
    and "ua < length (user_heap s)"
    and "u_is_active (user_heap s ! ua)"
    and "u_locked_until (user_heap s ! ua) = Some l"
    and "l \<le> now"
  shows "\<not> is_locked now (user_heap s ! ua)
         \<and> (\<not> verify_password H password (u_password_hash (user_heap s ! ua)) (u_salt (user_heap s ! ua)) \<longrightarrow>
              fst (login H now sid username password r s) = False
              \<and> u_locked_until (user_heap (snd (login H now sid username password r s)) ! ua) =
                  (if max_login_attempts s \<le> u_failed_login_attempts (user_heap s ! ua) + 1
                   then Some (now + timedelta_minutes (lockout_duration_minutes s))
                   else Some l))
         \<and> (verify_password H password (u_password_hash (user_heap s ! ua)) (u_salt (user_heap s ! ua)) \<longrightarrow>
              fst (login H now sid username password r s) = True
              \<and> u_locked_until (user_heap (snd (login H now sid username password r s)) ! ua) = None)"
proof (intro conjI impI)
  show nl: "\<not> is_locked now (user_heap s ! ua)"
    using assms(5,6) by (simp add: is_locked_def)
  {
    assume w: "\<not> verify_password H password (u_password_hash (user_heap s ! ua)) (u_salt (user_heap s ! ua))"
    note e = login_wrong_password_effect [OF assms(1,2,4) nl w, of sid r]
    show "fst (login H now sid username password r s) = False" by (rule e(1))
    show "u_locked_until (user_heap (snd (login H now sid username password r s)) ! ua) =
                  (if max_login_attempts s \<le> u_failed_login_attempts (user_heap s ! ua) + 1
                   then Some (now + timedelta_minutes (lockout_duration_minutes s))
                   else Some l)"
      using assms(3,5) by (simp add: e(2))
  }
  {
    assume v: "verify_password H password (u_password_hash (user_heap s ! ua)) (u_salt (user_heap s ! ua))"
    note e = login_success [OF assms(1,2,4) nl v, of sid r]
    show "fst (login H now sid username password r s) = True" by (rule e(1))
    show "u_locked_until (user_heap (snd (login H now sid username password r s)) ! ua) = None"
      using assms(3) by (simp add: e(2))
  }
qed

theorem stale_lock_is_ignored_not_cleared_witness:
  "accepted_login_data ''admin'' ''guess4''
   \<and> accepted_login_data ''admin'' ''admin123''
   \<and> find_user_by_username_or_email admin_locked ''admin'' = Some 0
   \<and> u_is_active (user_heap admin_locked ! 0)
   \<and> u_locked_until (user_heap admin_locked ! 0) = Some 1800000030
   \<and> \<not> is_locked 2000000000 (user_heap admin_locked ! 0)
   \<and> \<not> verify_password example_hash ''guess4'' (u_password_hash (user_heap admin_locked ! 0))
          (u_salt (user_heap admin_locked ! 0))
   \<and> u_locked_until
        (user_heap (snd (login example_hash 2000000000 ''sid-f'' ''admin'' ''guess4'' False admin_locked)) ! 0)
       = Some 3800000000
   \<and> verify_password example_hash ''admin123'' (u_password_hash (user_heap admin_locked ! 0))
        (u_salt (user_heap admin_locked ! 0))
   \<and> fst (login example_hash 2000000000 ''sid-f'' ''admin'' ''admin123'' False admin_locked) = True
   \<and> u_locked_until
        (user_heap (snd (login example_hash 2000000000 ''sid-f'' ''admin'' ''admin123'' False admin_locked)) ! 0)
       = None"
proof -
  have h1: "accepted_login_data ''admin'' ''guess4''"
    and h2: "accepted_login_data ''admin'' ''admin123''"
    by (simp_all add: login_eval)
  have h3: "(0::nat) < length (user_heap admin_locked)"
    and h4: "(1800000030::int) \<le> 2000000000"
    and h5: "\<not> verify_password example_hash ''guess4'' (u_password_hash (user_heap admin_locked ! 0))
          (u_salt (user_heap admin_locked ! 0))"
    and h6: "verify_password example_hash ''admin123'' (u_password_hash (user_heap admin_locked ! 0))
        (u_salt (user_heap admin_locked ! 0))"
    by (simp_all add: admin_locked_facts verify_password_def hash_password_def example_hash_def)
  from stale_lock_is_ignored_not_cleared [OF h1 admin_locked_facts(1) h3 admin_locked_facts(3,4) h4,
      of example_hash "''sid-f''" False]
    stale_lock_is_ignored_not_cleared [OF h2 admin_locked_facts(1) h3 admin_locked_facts(3,4) h4,
      of example_hash "''sid-f''" False]
    h1 h2 h5 h6 admin_locked_facts
  show ?thesis by (simp add: timedelta_minutes_def)
qed

lemma admin_locked_in_session_facts:
  "current_user admin_locked_in_session = Some 0"
  "current_session admin_locked_in_session = Some 0"
  "users admin_locked_in_session = [(''admin_001'', 0)]"
  "sessions admin_locked_in_session = [(''sid-1'', 0)]"
  "session_heap admin_locked_in_session = session_heap admin_logged_in"
  "user_heap admin_locked_in_session =
     [\<lparr>u_id = ''admin_001'', u_username = ''admin'', u_email = ''admin@pharmacy.local'',
       u_role = ADMIN, u_password_hash = ''5a17$admin123'', u_salt = ''5a17'',
       u_is_active = True, u_created_at = 0, u_last_login = Some 1,
       u_failed_login_attempts = 3, u_locked_until = Some 1800000030\<rparr>]"
  by (simp_all add: admin_locked_in_session_def admin_logged_in_eq login_eval emit_eval)

text \<open>The claim C5 as the specification words it fails. The administrator, logged in
  at time 1, is locked until 1800000030 by three wrong passwords. At time 2000000000 an
  update of his record that changes nothing evaluates the lock (the dictionary it emits
  says \<open>is_locked = False\<close>); the field \<open>locked_until\<close> still holds the past time
  afterwards.\<close>

theorem stale_lock_survives_evaluation:
  "u_locked_until (user_heap admin_locked_in_session ! 0) = Some 1800000030
   \<and> fst (update_user 2000000000 ''admin_001'' no_changes admin_locked_in_session) = True
   \<and> user_updated (to_dict 2000000000 (user_heap admin_locked_in_session ! 0))
       \<in> set (signals (snd (update_user 2000000000 ''admin_001'' no_changes admin_locked_in_session)))
   \<and> ud_is_locked (to_dict 2000000000 (user_heap admin_locked_in_session ! 0)) = False
   \<and> u_locked_until
        (user_heap (snd (update_user 2000000000 ''admin_001'' no_changes admin_locked_in_session)) ! 0)
       = Some 1800000030"
  by (simp add: admin_locked_in_session_facts admin_logged_in_eq user_eval to_dict_def is_locked_def)

section \<open>Creating a user\<close>

lemma find_user_in_None_iff:
  "find_user_in h m ident = None \<longleftrightarrow>
     (\<forall>p \<in> set m. u_username (h ! snd p) \<noteq> ident \<and> u_email (h ! snd p) \<noteq> ident)"
  by (induction h m ident rule: find_user_in.induct) auto

lemma validated_role_is_a_role:
  assumes "uv_messages (validate_user_data d False) = []"
  shows "UserRole_of (str_of (uv_role (validate_user_data d False))) \<noteq> None"
proof -
  from assms have t: "truthy (in_role d)" and v: "str_of (in_role d) \<in> set valid_roles"
    by (auto simp: validate_user_data_def Let_def validate_required_def truthy_def
        split: if_splits)
  from t v have "uv_role (validate_user_data d False) = in_role d"
    by (simp add: validate_user_data_def Let_def)
  with v show ?thesis
    by (auto simp: valid_roles_def UserRole_of_def)
qed

lemma create_user_outcomes:
  assumes "has_permission now USER_MANAGE s"
    and "uv_messages (validate_user_data d False) = []"
  shows "find_user_by_username_or_email s (str_of (uv_username (validate_user_data d False))) \<noteq> None \<Longrightarrow>
           create_user H now stamp token salt d s =
             (None, emit_error ''User Creation Error'' [Lit ''Username already exists''] s)"
    and "find_user_by_username_or_email s (str_of (uv_username (validate_user_data d False))) = None \<Longrightarrow>
         find_user_by_username_or_email s (str_of (uv_email (validate_user_data d False))) \<noteq> None \<Longrightarrow>
           create_user H now stamp token salt d s =
             (None, emit_error ''User Creation Error'' [Lit ''Email already exists''] s)"
    and "find_user_by_username_or_email s (str_of (uv_username (validate_user_data d False))) = None \<Longrightarrow>
         find_user_by_username_or_email s (str_of (uv_email (validate_user_data d False))) = None \<Longrightarrow>
           fst (create_user H now stamp token salt d s) = Some (''user_'' @ stamp @ ''_'' @ token)"
proof -
  obtain role where role: "UserRole_of (str_of (uv_role (validate_user_data d False))) = Some role"
    using validated_role_is_a_role [OF assms(2)] by auto
  show "find_user_by_username_or_email s (str_of (uv_username (validate_user_data d False))) \<noteq> None \<Longrightarrow>
           create_user H now stamp token salt d s =
             (None, emit_error ''User Creation Error'' [Lit ''Username already exists''] s)"
    using assms by (simp add: create_user_def)
  show "find_user_by_username_or_email s (str_of (uv_username (validate_user_data d False))) = None \<Longrightarrow>
         find_user_by_username_or_email s (str_of (uv_email (validate_user_data d False))) \<noteq> None \<Longrightarrow>
           create_user H now stamp token salt d s =
             (None, emit_error ''User Creation Error'' [Lit ''Email already exists''] s)"
    using assms by (simp add: create_user_def)
  show "find_user_by_username_or_email s (str_of (uv_username (validate_user_data d False))) = None \<Longrightarrow>
         find_user_by_username_or_email s (str_of (uv_email (validate_user_data d False))) = None \<Longrightarrow>
           fst (create_user H now stamp token salt d s) = Some (''user_'' @ stamp @ ''_'' @ token)"
    using assms role by (simp add: create_user_def Let_def)
qed

lemma find_user_Some_iff:
  "find_user_by_username_or_email s i \<noteq> None \<longleftrightarrow>
     (\<exists>p \<in> set (users s). u_username (user_heap s ! snd p) = i \<or> u_email (user_heap s ! snd p) = i)"
  by (simp add: find_user_by_username_or_email_def find_user_in_None_iff)

lemma stored_name_or_email:
  "(\<exists>p \<in> set (users s).
      u_username (user_heap s ! snd p) \<in> {n, e} \<or> u_email (user_heap s ! snd p) \<in> {n, e})
   \<longleftrightarrow> (find_user_by_username_or_email s n \<noteq> None \<or> find_user_by_username_or_email s e \<noteq> None)"
  unfolding find_user_Some_iff by (simp only: insert_iff empty_iff) blast

text \<open>
  C6, as the code has it. For a caller with the permission to manage users and data
  that passes validation, \<open>create_user\<close> fails exactly when the validated username or
  the validated (lower-cased) e-mail is the username or the e-mail of a stored user,
  whether that user is active or deactivated; the dialog is then \<^verbatim>\<open>Username already
  exists\<close> or \<^verbatim>\<open>Email already exists\<close>. A name held by a deactivated user blocks its
  reuse.
\<close>

theorem create_user_fails_iff_name_or_email_stored:
  assumes "has_permission now USER_MANAGE s"
    and "uv_messages (validate_user_data d False) = []"
    and "n = str_of (uv_username (validate_user_data d False))"
    and "e = str_of (uv_email (validate_user_data d False))"
  shows "(fst (create_user H now stamp token salt d s) = None \<longleftrightarrow>
            (\<exists>p \<in> set (users s).
               u_username (user_heap s ! snd p) \<in> {n, e} \<or> u_email (user_heap s ! snd p) \<in> {n, e}))
         \<and> (fst (create_user H now stamp token salt d s) = None \<longrightarrow>
              snd (create_user H now stamp token salt d s) \<in>
                {emit_error ''User Creation Error'' [Lit ''Username already exists''] s,
                 emit_error ''User Creation Error'' [Lit ''Email already exists''] s})"
proof -
  note o = create_user_outcomes [OF assms(1,2), of H stamp token salt]
  consider (name) "find_user_by_username_or_email s n \<noteq> None"
    | (email) "find_user_by_username_or_email s n = None" "find_user_by_username_or_email s e \<noteq> None"
    | (fresh) "find_user_by_username_or_email s n = None" "find_user_by_username_or_email s e = None"
    by blast
  then show ?thesis
  proof cases
    case name
    then have eq: "create_user H now stamp token salt d s =
             (None, emit_error ''User Creation Error'' [Lit ''Username already exists''] s)"
      unfolding assms(3) by (rule o(1))
    have f: "fst (create_user H now stamp token salt d s) = None"
      and sn: "snd (create_user H now stamp token salt d s) =
                 emit_error ''User Creation Error'' [Lit ''Username already exists''] s"
      by (simp_all only: eq fst_conv snd_conv)
    from name have ex: "\<exists>p \<in> set (users s).
               u_username (user_heap s ! snd p) \<in> {n, e} \<or> u_email (user_heap s ! snd p) \<in> {n, e}"
      by (simp only: stored_name_or_email simp_thms)
    show ?thesis
      using ex by (simp only: f sn insert_iff simp_thms)
  next
    case email
    then have eq: "create_user H now stamp token salt d s =
             (None, emit_error ''User Creation Error'' [Lit ''Email already exists''] s)"
      unfolding assms(3,4) by (rule o(2))
    have f: "fst (create_user H now stamp token salt d s) = None"
      and sn: "snd (create_user H now stamp token salt d s) =
                 emit_error ''User Creation Error'' [Lit ''Email already exists''] s"
      by (simp_all only: eq fst_conv snd_conv)
    from email(2) have ex: "\<exists>p \<in> set (users s).
               u_username (user_heap s ! snd p) \<in> {n, e} \<or> u_email (user_heap s ! snd p) \<in> {n, e}"
      by (simp only: stored_name_or_email simp_thms)
    show ?thesis
      using ex by (simp only: f sn insert_iff simp_thms)
  next
    case fresh
    then have f: "fst (create_user H now stamp token salt d s) = Some (''user_'' @ stamp @ ''_'' @ token)"
      unfolding assms(3,4) by (rule o(3))
    from fresh have nex: "\<not> (\<exists>p \<in> set (users s).
               u_username (user_heap s ! snd p) \<in> {n, e} \<or> u_email (user_heap s ! snd p) \<in> {n, e})"
      by (simp only: stored_name_or_email simp_thms)
    show ?thesis
      using nex by (simp only: f option.distinct simp_thms)
  qed
qed

lemmas validate_eval =
  validate_user_data_def truthy_def str_of_def validate_password_def valid_roles_def
  username_pattern_def dollar_def is_alnum_def is_upper_def is_lower_def is_digit_def
  email_pattern_def validate_email_def lower_def lower_char_def special_chars_def
  validate_required_def validate_length_def sanitize_input_def strip_def isspace_def
  is_control_def add_error_def Let_def

lemma bob_data_valid:
  "validate_user_data bob_data False =
     \<lparr>uv_messages = [], uv_username = Some ''bob'', uv_email = Some ''bob@example.org'',
      uv_password = Some ''Passw0rd'', uv_role = Some ''assistant'', uv_is_active = None\<rparr>"
  by (simp add: bob_data_def validate_eval)

lemma bob_again_data_valid:
  "validate_user_data bob_again_data False =
     \<lparr>uv_messages = [], uv_username = Some ''bob'', uv_email = Some ''robert@example.org'',
      uv_password = Some ''Passw0rd'', uv_role = Some ''assistant'', uv_is_active = None\<rparr>"
  by (simp add: bob_again_data_def bob_data_def validate_eval)

lemmas permission_eval =
  has_permission_def is_valid_def user_has_permission_def get_permissions_def

lemma bob_created_facts:
  "current_user bob_created = Some 0"
  "current_session bob_created = Some 0"
  "users bob_created = [(''admin_001'', 0), (''user_20240101000000_0badc0de'', 1)]"
  "sessions bob_created = [(''sid-1'', 0)]"
  "session_heap bob_created = session_heap admin_logged_in"
  "user_heap bob_created =
     [\<lparr>u_id = ''admin_001'', u_username = ''admin'', u_email = ''admin@pharmacy.local'',
       u_role = ADMIN, u_password_hash = ''5a17$admin123'', u_salt = ''5a17'',
       u_is_active = True, u_created_at = 0, u_last_login = Some 1,
       u_failed_login_attempts = 0, u_locked_until = None\<rparr>,
      \<lparr>u_id = ''user_20240101000000_0badc0de'', u_username = ''bob'',
       u_email = ''bob@example.org'', u_role = ASSISTANT,
       u_password_hash = ''77aa$Passw0rd'', u_salt = ''77aa'',
       u_is_active = True, u_created_at = 5, u_last_login = None,
       u_failed_login_attempts = 0, u_locked_until = None\<rparr>]"
  by (simp_all add: bob_created_def example_library_def admin_logged_in_eq create_user_def
      permission_eval bob_data_valid find_user_by_username_or_email_def str_of_def
      UserRole_of_def hash_password_def example_hash_def Let_def)

lemma bob_deleted_facts:
  "current_user bob_deleted = Some 0"
  "current_session bob_deleted = Some 0"
  "users bob_deleted = [(''admin_001'', 0), (''user_20240101000000_0badc0de'', 1)]"
  "sessions bob_deleted = [(''sid-1'', 0)]"
  "session_heap bob_deleted = session_heap admin_logged_in"
  "user_heap bob_deleted =
     [\<lparr>u_id = ''admin_001'', u_username = ''admin'', u_email = ''admin@pharmacy.local'',
       u_role = ADMIN, u_password_hash = ''5a17$admin123'', u_salt = ''5a17'',
       u_is_active = True, u_created_at = 0, u_last_login = Some 1,
       u_failed_login_attempts = 0, u_locked_until = None\<rparr>,
      \<lparr>u_id = ''user_20240101000000_0badc0de'', u_username = ''bob'',
       u_email = ''bob@example.org'', u_role = ASSISTANT,
       u_password_hash = ''77aa$Passw0rd'', u_salt = ''77aa'',
       u_is_active = False, u_created_at = 5, u_last_login = None,
       u_failed_login_attempts = 0, u_locked_until = None\<rparr>]"
  by (simp_all add: bob_deleted_def example_library_def delete_user_def permission_eval
      bob_created_facts admin_logged_in_eq Let_def)

lemma bob_deleted_permission: "has_permission 7 USER_MANAGE bob_deleted"
  by (simp add: permission_eval bob_deleted_facts admin_logged_in_eq)

theorem create_user_fails_iff_name_or_email_stored_witness:
  "has_permission 7 USER_MANAGE bob_deleted
   \<and> uv_messages (validate_user_data bob_again_data False) = []
   \<and> fst (create_user example_hash 7 ''20240101000002'' ''0badc0de'' ''78bb'' bob_again_data bob_deleted)
       = None
   \<and> (\<exists>p \<in> set (users bob_deleted).
         u_username (user_heap bob_deleted ! snd p) \<in> {''bob'', ''robert@example.org''}
         \<or> u_email (user_heap bob_deleted ! snd p) \<in> {''bob'', ''robert@example.org''})"
proof -
  have h2: "uv_messages (validate_user_data bob_again_data False) = []"
    and h3: "''bob'' = str_of (uv_username (validate_user_data bob_again_data False))"
    and h4: "''robert@example.org'' = str_of (uv_email (validate_user_data bob_again_data False))"
    by (simp_all add: bob_again_data_valid str_of_def)
  have ex: "\<exists>p \<in> set (users bob_deleted).
         u_username (user_heap bob_deleted ! snd p) \<in> {''bob'', ''robert@example.org''}
         \<or> u_email (user_heap bob_deleted ! snd p) \<in> {''bob'', ''robert@example.org''}"
    by (simp add: bob_deleted_facts)
  from create_user_fails_iff_name_or_email_stored [OF bob_deleted_permission h2 h3 h4,
      of example_hash "''20240101000002''" "''0badc0de''" "''78bb''"] ex
  have "fst (create_user example_hash 7 ''20240101000002'' ''0badc0de'' ''78bb'' bob_again_data bob_deleted)
       = None"
    by blast
  with bob_deleted_permission h2 ex show ?thesis by blast
qed

text \<open>The claim C6 as the specification words it fails. The administrator has created
  the user bob and deleted (deactivated) him. The username \<^verbatim>\<open>bob\<close> is then held by a
  deactivated user only, and creating a user with that name and a new e-mail address
  fails with the dialog \<^verbatim>\<open>Username already exists\<close>.\<close>

theorem deactivated_user_blocks_username:
  "map (\<lambda>p. (u_username (user_heap bob_deleted ! snd p), u_email (user_heap bob_deleted ! snd p),
             u_is_active (user_heap bob_deleted ! snd p))) (users bob_deleted)
     = [(''admin'', ''admin@pharmacy.local'', True), (''bob'', ''bob@example.org'', False)]
   \<and> has_permission 7 USER_MANAGE bob_deleted
   \<and> uv_messages (validate_user_data bob_again_data False) = []
   \<and> uv_username (validate_user_data bob_again_data False) = Some ''bob''
   \<and> uv_email (validate_user_data bob_again_data False) = Some ''robert@example.org''
   \<and> create_user example_hash 7 ''20240101000002'' ''0badc0de'' ''78bb'' bob_again_data bob_deleted
       = (None, emit_error ''User Creation Error'' [Lit ''Username already exists''] bob_deleted)"
proof -
  have "find_user_by_username_or_email bob_deleted
          (str_of (uv_username (validate_user_data bob_again_data False))) \<noteq> None"
    by (simp add: bob_again_data_valid str_of_def find_user_by_username_or_email_def bob_deleted_facts)
  with bob_deleted_permission
  have "create_user example_hash 7 ''20240101000002'' ''0badc0de'' ''78bb'' bob_again_data bob_deleted
       = (None, emit_error ''User Creation Error'' [Lit ''Username already exists''] bob_deleted)"
    by (simp add: create_user_outcomes(1) bob_again_data_valid)
  moreover have "map (\<lambda>p. (u_username (user_heap bob_deleted ! snd p), u_email (user_heap bob_deleted ! snd p),
             u_is_active (user_heap bob_deleted ! snd p))) (users bob_deleted)
     = [(''admin'', ''admin@pharmacy.local'', True), (''bob'', ''bob@example.org'', False)]"
    by (simp add: bob_deleted_facts)
  ultimately show ?thesis
    using bob_deleted_permission by (simp only: bob_again_data_valid simp_thms user_validation.simps)
qed

section \<open>The role a permission check reads\<close>

lemma has_permission_iff:
  "has_permission now p s \<longleftrightarrow>
     (\<exists>ua sa. current_user s = Some ua \<and> current_session s = Some sa
        \<and> is_valid now (session_heap s ! sa)
        \<and> p \<in> set (role_permissions (u_role (user_heap s ! ua))))"
  by (auto simp: has_permission_def user_has_permission_def get_permissions_def
      split: option.split)

lemma role_change_valid:
  assumes "UserRole_of r = Some role"
  shows "validate_user_data (role_change r) True =
     \<lparr>uv_messages = [], uv_username = None, uv_email = None, uv_password = None,
      uv_role = Some r, uv_is_active = None\<rparr>"
proof -
  from assms have "r \<noteq> []" "r \<in> set valid_roles"
    by (auto simp: UserRole_of_def valid_roles_def split: if_splits)
  then show ?thesis
    by (simp add: role_change_def no_changes_def validate_user_data_def truthy_def str_of_def)
qed

lemma update_user_role_only:
  assumes "has_permission now USER_MANAGE s"
    and "map_of (users s) user_id = Some ua"
    and "UserRole_of r = Some role"
  shows "fst (update_user now user_id (role_change r) s) = True"
    and "user_heap (snd (update_user now user_id (role_change r) s)) =
           (user_heap s)[ua := (user_heap s ! ua)\<lparr>u_role := role\<rparr>]"
    and "session_heap (snd (update_user now user_id (role_change r) s)) = session_heap s"
    and "current_user (snd (update_user now user_id (role_change r) s)) = current_user s"
    and "current_session (snd (update_user now user_id (role_change r) s)) = current_session s"
    and "sessions (snd (update_user now user_id (role_change r) s)) = sessions s"
  using assms
  by (simp_all add: update_user_def role_change_valid [OF assms(3)] str_of_def Let_def)

text \<open>
  C1, as the code has it. A session records the role its user had when it was created,
  and \<open>update_user\<close> does not write that record. A permission check does not read it:
  \<open>has_permission\<close> evaluates against the role that the \<open>User\<close> object of the current
  user has at the time of the check. So when \<open>update_user\<close> sets the role of the
  logged-in user, every later check through the running session is made against the new
  role, with no re-login, while the session still shows the old one.
\<close>

theorem permission_checks_follow_current_role:
  assumes "has_permission now USER_MANAGE s"
    and "current_user s = Some ua"
    and "current_session s = Some sa"
    and "ua < length (user_heap s)"
    and "map_of (users s) user_id = Some ua"
    and "UserRole_of r = Some role"
    and "s' = snd (update_user now user_id (role_change r) s)"
  shows "fst (update_user now user_id (role_change r) s) = True
         \<and> current_session s' = Some sa
         \<and> session_heap s' ! sa = session_heap s ! sa
         \<and> has_permission t p s' =
             (is_valid t (session_heap s ! sa) \<and> p \<in> set (role_permissions role))"
proof -
  note u = update_user_role_only [OF assms(1,5,6), folded assms(7)]
  have "u_role (user_heap s' ! ua) = role"
    using assms(4) by (simp add: u(2))
  then have "has_permission t p s' =
             (is_valid t (session_heap s ! sa) \<and> p \<in> set (role_permissions role))"
    using assms(2,3) by (simp add: has_permission_iff u(3,4,5))
  with u show ?thesis
    using assms(3) by simp
qed

theorem permission_checks_follow_current_role_witness:
  "has_permission 5 USER_MANAGE admin_logged_in
   \<and> current_user admin_logged_in = Some 0
   \<and> current_session admin_logged_in = Some 0
   \<and> map_of (users admin_logged_in) ''admin_001'' = Some 0
   \<and> UserRole_of ''viewer'' = Some VIEWER
   \<and> fst (update_user 5 ''admin_001'' (role_change ''viewer'') admin_logged_in) = True
   \<and> session_heap (snd (update_user 5 ''admin_001'' (role_change ''viewer'') admin_logged_in)) ! 0
       = session_heap admin_logged_in ! 0
   \<and> has_permission 6 CLIENT_READ
         (snd (update_user 5 ''admin_001'' (role_change ''viewer'') admin_logged_in))
   \<and> \<not> has_permission 6 CLIENT_UPDATE
         (snd (update_user 5 ''admin_001'' (role_change ''viewer'') admin_logged_in))"
proof -
  have h1: "has_permission 5 USER_MANAGE admin_logged_in"
    and h2: "current_user admin_logged_in = Some 0"
    and h3: "current_session admin_logged_in = Some 0"
    and h4: "0 < length (user_heap admin_logged_in)"
    and h5: "map_of (users admin_logged_in) ''admin_001'' = Some 0"
    and h6: "UserRole_of ''viewer'' = Some VIEWER"
    and h7: "is_valid 6 (session_heap admin_logged_in ! 0)"
    by (simp_all add: admin_logged_in_eq permission_eval UserRole_of_def)
  from permission_checks_follow_current_role [OF h1 h2 h3 h4 h5 h6 refl, of 6 CLIENT_READ]
    permission_checks_follow_current_role [OF h1 h2 h3 h4 h5 h6 refl, of 6 CLIENT_UPDATE]
    h1 h2 h3 h5 h6 h7
  show ?thesis by simp
qed

text \<open>The claim C1 as the specification words it fails. The administrator's session is
  created while his role is \<open>ADMIN\<close>. He then sets his own role to viewer. The session
  is still current, valid and recorded with the role \<open>ADMIN\<close>, a role that holds the
  permission to manage users; the permission check through it answers as for a viewer.\<close>

theorem permission_check_ignores_session_role:
  "has_permission 5 USER_MANAGE admin_logged_in
   \<and> current_session admin_demoted = Some 0
   \<and> s_role (session_heap admin_demoted ! 0) = ADMIN
   \<and> is_valid 6 (session_heap admin_demoted ! 0)
   \<and> USER_MANAGE \<in> set (role_permissions (s_role (session_heap admin_demoted ! 0)))
   \<and> \<not> has_permission 6 USER_MANAGE admin_demoted
   \<and> has_permission 6 CLIENT_READ admin_demoted"
proof -
  have h1: "has_permission 5 USER_MANAGE admin_logged_in"
    and h5: "map_of (users admin_logged_in) ''admin_001'' = Some 0"
    and h6: "UserRole_of ''viewer'' = Some VIEWER"
    by (simp_all add: admin_logged_in_eq permission_eval UserRole_of_def)
  note u = update_user_role_only [OF h1 h5 h6]
  have d: "admin_demoted = snd (update_user 5 ''admin_001'' (role_change ''viewer'') admin_logged_in)"
    by (simp add: admin_demoted_def)
  show ?thesis
    unfolding d has_permission_iff u
    by (simp add: admin_logged_in_eq is_valid_def)
qed

end
